theory Spec2Isabelle
  imports Main
begin

section \<open>Python values shared by both source files\<close>

text \<open>
  A Python string (\<open>str\<close>) is the list of its code points; \<open>ascii\<close> turns a text of
  ASCII characters into one. Byte strings are lists of 8-bit characters. The response
  models of \<open>feature_flags.py\<close> keep field names and string values as 8-bit strings.
  Exceptions are values: a class and the text \<open>str(e)\<close> gives. Only the classes the
  two scripts can meet are listed. \<open>ModuleNotFoundError\<close> is a subclass of
  \<open>ImportError\<close>; \<open>KeyboardInterrupt\<close> and \<open>SystemExit\<close> derive from
  \<open>BaseException\<close> and not from \<open>Exception\<close>; every other class derives from
  \<open>Exception\<close> and is unrelated to \<open>ImportError\<close>.
\<close>

type_synonym str = "nat list"

type_synonym bytes = "char list"

definition ascii :: "string \<Rightarrow> str" where
  "ascii s = map of_char s"

definition quoted :: "string \<Rightarrow> string" where
  "quoted s = [CHR 0x27] @ s @ [CHR 0x27]"

datatype exc_class =
    ImportError
  | ModuleNotFoundError
  | AttributeError
  | TypeError
  | ValueError
  | OSError
  | ObjCError
  | KeyboardInterrupt
  | SystemExit

datatype py_exception = PyExc (exc_cls: exc_class) (exc_str: str)

fun isinstance_ImportError :: "exc_class \<Rightarrow> bool" where
  "isinstance_ImportError ImportError = True"
| "isinstance_ImportError ModuleNotFoundError = True"
| "isinstance_ImportError _ = False"

fun isinstance_Exception :: "exc_class \<Rightarrow> bool" where
  "isinstance_Exception KeyboardInterrupt = False"
| "isinstance_Exception SystemExit = False"
| "isinstance_Exception _ = True"

section \<open>extract-icon.py: the world the script runs in\<close>

text \<open>
  The script touches the file system and the two output streams. A path names a
  directory, a regular file with its bytes, or nothing. \<open>stdout\<close> and \<open>stderr\<close> hold
  the text that reached the two streams. \<open>unflushed\<close> says that printed text sits in a
  buffer the interpreter cannot flush; it is false when the process starts.
\<close>

datatype node = Directory | RegularFile bytes

record world =
  fs :: "str \<rightharpoonup> node"
  stdout :: str
  stderr :: str
  unflushed :: bool

text \<open>
  What one \<open>print\<close> call meets. \<open>sys.stdout\<close> or \<open>sys.stderr\<close> is \<open>None\<close> when the
  process starts with that descriptor closed (\<open>Absent\<close>). A stream that is there
  decides, for the line it is given, whether the line is written, is kept in a buffer
  over a device that takes no more (the call returns, the line is lost and the flush at
  exit fails), or is refused (the call raises).
\<close>

datatype print_result = Written | Kept | Failed py_exception

datatype stream = Absent | Present "str \<Rightarrow> print_result"

text \<open>
  Everything the script gets from outside its own text is a field of \<open>platform\<close>.
  \<open>'o\<close> is the type of Objective-C objects seen through PyObjC. Each call either
  raises (\<open>Inl\<close>) or returns (\<open>Inr\<close>); a method that may return \<open>nil\<close> returns an
  option, \<open>None\<close> being Python's \<open>None\<close>.
  \<^item> \<open>import_AppKit\<close>: the exception of line 15's import, or \<open>None\<close> when the three
    names were imported;
  \<^item> the PyObjC selectors \<open>iconForFile_\<close>, \<open>setSize_\<close>, \<open>imageRepWithData_\<close> and
    \<open>representationUsingType_properties_\<close> lose their final underscore here;
  \<^item> \<open>setSize\<close> changes the image in place; the model returns the changed image;
  \<^item> \<open>open_error\<close>: the exception \<open>open(path, 'wb')\<close> raises for a path that is not
    a directory, or \<open>None\<close> when the file can be opened for writing;
  \<^item> \<open>write_error\<close>: \<open>None\<close> when writing and closing succeed, otherwise the
    exception and the number of bytes that reached the file before it (all of them
    when only the closing failed);
  \<^item> \<open>sys_stdout\<close>, \<open>sys_stderr\<close>: the two streams;
  \<^item> \<open>white_space\<close>, \<open>decimal_zeros\<close>: the interpreter's Unicode tables beyond ASCII,
    the white space characters and the digit zero of every script (the other nine
    digits of a script follow their zero);
  \<^item> \<open>repr\<close>: the interpreter's \<open>repr\<close> of a string;
  \<^item> \<open>int_max_str_digits\<close>: the interpreter's limit on the digits of an integer
    string, 0 when there is none (\<open>sys.get_int_max_str_digits()\<close>; interpreters
    without the limit behave as 0).
\<close>

record 'o platform =
  import_AppKit :: "py_exception option"
  sharedWorkspace :: "py_exception + 'o"
  iconForFile :: "'o \<Rightarrow> str \<Rightarrow> py_exception + 'o option"
  setSize :: "'o \<Rightarrow> int \<times> int \<Rightarrow> py_exception + 'o"
  TIFFRepresentation :: "'o \<Rightarrow> py_exception + 'o option"
  imageRepWithData :: "'o option \<Rightarrow> py_exception + 'o option"
  representationUsingType_properties :: "'o \<Rightarrow> py_exception + bytes option"
  open_error :: "str \<Rightarrow> py_exception option"
  write_error :: "str \<Rightarrow> bytes \<Rightarrow> (py_exception \<times> nat) option"
  sys_stdout :: stream
  sys_stderr :: stream
  white_space :: "nat list"
  decimal_zeros :: "nat list"
  repr :: "str \<Rightarrow> str"
  int_max_str_digits :: nat

section \<open>extract-icon.py: printing\<close>

text \<open>
  \<open>print(text)\<close> and \<open>print(text, file=sys.stderr)\<close>. The line is the text and a line
  feed. With \<open>sys.stdout\<close> absent the first does nothing; with \<open>sys.stderr\<close> absent the
  second is \<open>print(text, file=None)\<close>, which prints on \<open>sys.stdout\<close>. The result is
  the exception raised, if any.
\<close>

datatype channel = Stdout | Stderr

definition emit :: "channel \<Rightarrow> str \<Rightarrow> world \<Rightarrow> world" where
  "emit ch line w =
     (case ch of
        Stdout \<Rightarrow> w\<lparr>stdout := stdout w @ line\<rparr>
      | Stderr \<Rightarrow> w\<lparr>stderr := stderr w @ line\<rparr>)"

definition write_stream ::
  "stream \<Rightarrow> channel \<Rightarrow> str \<Rightarrow> world \<Rightarrow> py_exception option \<times> world" where
  "write_stream s ch line w =
     (case s of
        Absent \<Rightarrow> (None, w)
      | Present accept \<Rightarrow>
          (case accept line of
             Written \<Rightarrow> (None, emit ch line w)
           | Kept \<Rightarrow> (None, w\<lparr>unflushed := True\<rparr>)
           | Failed e \<Rightarrow> (Some e, w)))"

definition print_stdout ::
  "'o platform \<Rightarrow> str \<Rightarrow> world \<Rightarrow> py_exception option \<times> world" where
  "print_stdout p text w = write_stream (sys_stdout p) Stdout (text @ [10]) w"

definition print_stderr ::
  "'o platform \<Rightarrow> str \<Rightarrow> world \<Rightarrow> py_exception option \<times> world" where
  "print_stderr p text w =
     (case sys_stderr p of
        Absent \<Rightarrow> print_stdout p text w
      | Present accept \<Rightarrow> write_stream (Present accept) Stderr (text @ [10]) w)"

section \<open>extract-icon.py: \<open>extract_icon\<close>\<close>

text \<open>The two exceptions Python itself raises in the body, on \<open>None\<close>.\<close>

definition no_attribute :: py_exception where
  "no_attribute =
     PyExc AttributeError
       (ascii (quoted ''NoneType'' @ '' object has no attribute '' @
               quoted ''representationUsingType_properties_''))"

definition not_bytes_like :: py_exception where
  "not_bytes_like =
     PyExc TypeError (ascii (''a bytes-like object is required, not '' @ quoted ''NoneType''))"

definition is_a_directory :: "'o platform \<Rightarrow> str \<Rightarrow> py_exception" where
  "is_a_directory p path =
     PyExc OSError (ascii ''[Errno 21] Is a directory: '' @ repr p path)"

text \<open>
  Lines 15 to 27: the import, the lookup, the resize and the two encodings. The result
  is the exception raised, or \<open>None\<close> when \<open>icon\<close> is \<open>nil\<close> (line 21 returns
  \<open>False\<close>), or \<open>Some png_data\<close>, where \<open>png_data\<close> itself may be \<open>None\<close>.
  Calling a method on \<open>None\<close> (line 27, when \<open>imageRepWithData\<close> gave \<open>nil\<close>) raises
  \<open>AttributeError\<close>.
\<close>

definition render_png ::
  "'o platform \<Rightarrow> str \<Rightarrow> int \<Rightarrow> py_exception + bytes option option" where
  "render_png p app_path sz =
     (case import_AppKit p of
        Some e \<Rightarrow> Inl e
      | None \<Rightarrow>
     (case sharedWorkspace p of
        Inl e \<Rightarrow> Inl e
      | Inr workspace \<Rightarrow>
     (case iconForFile p workspace app_path of
        Inl e \<Rightarrow> Inl e
      | Inr None \<Rightarrow> Inr None
      | Inr (Some icon) \<Rightarrow>
     (case setSize p icon (sz, sz) of
        Inl e \<Rightarrow> Inl e
      | Inr icon' \<Rightarrow>
     (case TIFFRepresentation p icon' of
        Inl e \<Rightarrow> Inl e
      | Inr tiff_data \<Rightarrow>
     (case imageRepWithData p tiff_data of
        Inl e \<Rightarrow> Inl e
      | Inr None \<Rightarrow> Inl no_attribute
      | Inr (Some bitmap_rep) \<Rightarrow>
     (case representationUsingType_properties p bitmap_rep of
        Inl e \<Rightarrow> Inl e
      | Inr png_data \<Rightarrow> Inr (Some png_data))))))))"

text \<open>
  Lines 29 and 30. \<open>open(output_path, 'wb')\<close> raises on a directory and where the
  platform says so; otherwise it creates the file or empties the one there. Then
  \<open>f.write(png_data)\<close>: \<open>None\<close> is not bytes-like (\<open>TypeError\<close>, the file stays
  empty); a failing write or close leaves the bytes that got through; a completed one
  leaves the whole data. The \<open>with\<close> block closes the file on every path.
\<close>

definition write_png ::
  "'o platform \<Rightarrow> str \<Rightarrow> bytes option \<Rightarrow> world \<Rightarrow> py_exception option \<times> world" where
  "write_png p output_path png_data w =
     (if fs w output_path = Some Directory
      then (Some (is_a_directory p output_path), w)
      else
     (case open_error p output_path of
        Some e \<Rightarrow> (Some e, w)
      | None \<Rightarrow>
          let w1 = w\<lparr>fs := (fs w)(output_path \<mapsto> RegularFile [])\<rparr> in
     (case png_data of
        None \<Rightarrow> (Some not_bytes_like, w1)
      | Some data \<Rightarrow>
     (case write_error p output_path data of
        Some (e, n) \<Rightarrow>
          (Some e, w1\<lparr>fs := (fs w1)(output_path \<mapsto> RegularFile (take n data))\<rparr>)
      | None \<Rightarrow>
          (None, w1\<lparr>fs := (fs w1)(output_path \<mapsto> RegularFile data)\<rparr>)))))"

text \<open>The body of the \<open>try\<close>, lines 15 to 32: an exception, or the value returned.\<close>

definition extract_icon_try ::
  "'o platform \<Rightarrow> str \<Rightarrow> str \<Rightarrow> int \<Rightarrow> world \<Rightarrow> (py_exception + bool) \<times> world" where
  "extract_icon_try p app_path output_path sz w =
     (case render_png p app_path sz of
        Inl e \<Rightarrow> (Inl e, w)
      | Inr None \<Rightarrow> (Inr False, w)
      | Inr (Some png_data) \<Rightarrow>
     (case write_png p output_path png_data w of
        (Some e, w') \<Rightarrow> (Inl e, w')
      | (None, w') \<Rightarrow> (Inr True, w')))"

text \<open>
  The two handlers, lines 33 to 38, in the source's order: \<open>ImportError\<close> first and
  silent, then \<open>Exception\<close> with the diagnostic of line 37. When that \<open>print\<close> raises,
  its exception leaves the function in place of \<open>False\<close>. An exception neither clause
  matches leaves the function. The third argument of \<open>extract_icon\<close> is \<open>None\<close> when
  the caller omits \<open>size\<close> (\<open>sz\<close> below, \<open>size\<close> being a constant of HOL).
\<close>

definition handle_exception ::
  "'o platform \<Rightarrow> py_exception \<Rightarrow> world \<Rightarrow> (py_exception + bool) \<times> world" where
  "handle_exception p e w =
     (if isinstance_ImportError (exc_cls e) then (Inr False, w)
      else if isinstance_Exception (exc_cls e)
      then (case print_stderr p (ascii ''Error: '' @ exc_str e) w of
              (Some e', w') \<Rightarrow> (Inl e', w')
            | (None, w') \<Rightarrow> (Inr False, w'))
      else (Inl e, w))"

definition extract_icon ::
  "'o platform \<Rightarrow> str \<Rightarrow> str \<Rightarrow> int option \<Rightarrow> world \<Rightarrow> (py_exception + bool) \<times> world" where
  "extract_icon p app_path output_path size_arg w =
     (let sz = (case size_arg of None \<Rightarrow> 64 | Some s \<Rightarrow> s) in
      case extract_icon_try p app_path output_path sz w of
        (Inl e, w') \<Rightarrow> handle_exception p e w'
      | (Inr b, w') \<Rightarrow> (Inr b, w'))"

section \<open>extract-icon.py: the command-line wrapper\<close>

text \<open>
  \<open>int(s)\<close> on a string, as CPython computes it in base 10. White space is skipped at
  both ends: tab, line feed, vertical tab, form feed, carriage return and space, and
  the white space of the Unicode table from U+0080 on. One sign, \<open>+\<close> or \<open>-\<close>, may
  come first. Then come decimal digits, those of ASCII and those of the Unicode table
  from U+0080 on, with single underscores allowed between two digits. Nothing else may
  follow. After the underscores are checked, a string with more digits than the
  interpreter's limit (which only applies above 640 digits) is refused. Each refusal
  is a \<open>ValueError\<close>.
\<close>

definition is_space :: "'o platform \<Rightarrow> nat \<Rightarrow> bool" where
  "is_space p c = (c \<in> {9, 10, 11, 12, 13, 32} \<or> 128 \<le> c \<and> c \<in> set (white_space p))"

definition decimal_digit :: "'o platform \<Rightarrow> nat \<Rightarrow> nat option" where
  "decimal_digit p c =
     (if c < 128 then (if 48 \<le> c \<and> c \<le> 57 then Some (c - 48) else None)
      else if c \<in> set (white_space p) then None
      else (case find (\<lambda>z. 128 \<le> z \<and> z \<le> c \<and> c < z + 10) (decimal_zeros p) of
              None \<Rightarrow> None
            | Some z \<Rightarrow> Some (c - z)))"

definition is_digit :: "'o platform \<Rightarrow> nat \<Rightarrow> bool" where
  "is_digit p c = (decimal_digit p c \<noteq> None)"

definition digit_value :: "'o platform \<Rightarrow> nat \<Rightarrow> int" where
  "digit_value p c = (case decimal_digit p c of None \<Rightarrow> 0 | Some d \<Rightarrow> int d)"

text \<open>The sign: \<open>-\<close> is code point 45, \<open>+\<close> is 43. The underscore is 95.\<close>

definition strip_sign :: "str \<Rightarrow> bool \<times> str" where
  "strip_sign s =
     (case s of
        [] \<Rightarrow> (False, [])
      | c # r \<Rightarrow>
          if c = 45 then (True, r)
          else if c = 43 then (False, r)
          else (False, s))"

definition digit_or_underscore :: "'o platform \<Rightarrow> nat \<Rightarrow> bool" where
  "digit_or_underscore p c = (is_digit p c \<or> c = 95)"

fun underscores_ok :: "'o platform \<Rightarrow> str \<Rightarrow> bool" where
  "underscores_ok p [] = False"
| "underscores_ok p [c] = is_digit p c"
| "underscores_ok p (c # d # cs) =
     (is_digit p c \<and> (if d = 95 then underscores_ok p cs else underscores_ok p (d # cs)))"

text \<open>A number in decimal, for the text of the second refusal.\<close>

fun decimal :: "nat \<Rightarrow> str" where
  "decimal n = (if n < 10 then [48 + n] else decimal (n div 10) @ [48 + n mod 10])"

declare decimal.simps [simp del]

definition invalid_literal :: "'o platform \<Rightarrow> str \<Rightarrow> py_exception" where
  "invalid_literal p s =
     PyExc ValueError (ascii ''invalid literal for int() with base 10: '' @ repr p s)"

definition over_limit :: "'o platform \<Rightarrow> nat \<Rightarrow> bool" where
  "over_limit p n =
     (0 < int_max_str_digits p \<and> int_max_str_digits p < n \<and> 640 < n)"

definition exceeds_limit :: "'o platform \<Rightarrow> nat \<Rightarrow> py_exception" where
  "exceeds_limit p n =
     PyExc ValueError
       (ascii ''Exceeds the limit ('' @ decimal (int_max_str_digits p) @
        ascii '' digits) for integer string conversion: value has '' @ decimal n @
        ascii '' digits; use sys.set_int_max_str_digits() to increase the limit'')"

definition py_int :: "'o platform \<Rightarrow> str \<Rightarrow> py_exception + int" where
  "py_int p s =
     (let (negative, s') = strip_sign (dropWhile (is_space p) s);
          body = takeWhile (digit_or_underscore p) s';
          rest = dropWhile (digit_or_underscore p) s';
          digits = filter (is_digit p) body
      in if \<not> underscores_ok p body then Inl (invalid_literal p s)
         else if over_limit p (length digits) then Inl (exceeds_limit p (length digits))
         else if \<not> list_all (is_space p) rest then Inl (invalid_literal p s)
         else Inr ((if negative then - 1 else 1) *
                   foldl (\<lambda>a c. 10 * a + digit_value p c) 0 digits))"

text \<open>
  How the process ends: with an exit status, or with an exception nobody caught (the
  interpreter then prints a traceback and ends the process; neither that text nor the
  status it ends with is modelled). \<open>sys.exit(n)\<close> ends the process with status
  \<open>n\<close>, unless the flush of the two streams at exit fails: then the status is 120.
\<close>

datatype exit_status = Exit int | Uncaught py_exception

definition sys_exit :: "int \<Rightarrow> world \<Rightarrow> exit_status \<times> world" where
  "sys_exit n w = (Exit (if unflushed w then 120 else n), w)"

definition usage :: str where
  "usage = ascii ''Usage: extract-icon.py <app_path> <output_path> [size]''"

text \<open>Lines 49 to 53: what the wrapper does with the outcome of \<open>extract_icon\<close>.\<close>

definition report ::
  "'o platform \<Rightarrow> (py_exception + bool) \<times> world \<Rightarrow> exit_status \<times> world" where
  "report p r =
     (case r of
        (Inl e, w) \<Rightarrow> (Uncaught e, w)
      | (Inr True, w) \<Rightarrow>
          (case print_stdout p (ascii ''OK'') w of
             (Some e, w') \<Rightarrow> (Uncaught e, w')
           | (None, w') \<Rightarrow> sys_exit 0 w')
      | (Inr False, w) \<Rightarrow> sys_exit 1 w)"

text \<open>Line 47: the size asked for, 64 when there is no third argument.\<close>

definition requested_size :: "'o platform \<Rightarrow> str list \<Rightarrow> py_exception + int" where
  "requested_size p argv = (if 3 < length argv then py_int p (argv ! 3) else Inr 64)"

text \<open>
  Lines 41 to 53. \<open>argv\<close> is \<open>sys.argv\<close>: the script's name, then the positional
  arguments. The reads \<open>argv ! 1\<close> and \<open>argv ! 2\<close> are behind the length test of
  line 41, \<open>argv ! 3\<close> behind that of line 47.
\<close>

definition main :: "'o platform \<Rightarrow> str list \<Rightarrow> world \<Rightarrow> exit_status \<times> world" where
  "main p argv w =
     (if length argv < 3
      then (case print_stderr p usage w of
              (Some e, w') \<Rightarrow> (Uncaught e, w')
            | (None, w') \<Rightarrow> sys_exit 1 w')
      else
        let app_path = argv ! 1;
            output_path = argv ! 2
        in case requested_size p argv of
             Inl e \<Rightarrow> (Uncaught e, w)
           | Inr sz \<Rightarrow> report p (extract_icon p app_path output_path (Some sz) w))"

section \<open>extract-icon.py: the words of the specification\<close>

text \<open>
  The source tests neither the bundle path nor the output path: the platform's replies
  are all it looks at. The specification speaks of paths that exist, of valid bundles
  and of writable output paths; these three predicates follow its words. A bundle is
  valid when it is a directory the host recognises, that is, one its icon service
  resolves an icon for. An output path is writable when it can be opened for writing
  and every write to it completes.
\<close>

definition path_exists :: "world \<Rightarrow> str \<Rightarrow> bool" where
  "path_exists w path = (fs w path \<noteq> None)"



text \<open>
  An exception is raised during import, lookup, resize, encoding or writing: the
  platform's calls in the order of lines 15 to 30, each made when the ones before it
  returned, with the three exceptions Python raises itself (the method call on
  \<open>None\<close>, the directory that cannot be opened, the write of \<open>None\<close>).
\<close>

definition step_raises ::
  "'o platform \<Rightarrow> str \<Rightarrow> str \<Rightarrow> int \<Rightarrow> world \<Rightarrow> py_exception \<Rightarrow> bool" where
  "step_raises p app_path output_path sz w e =
     (case import_AppKit p of
        Some e' \<Rightarrow> e' = e
      | None \<Rightarrow>
     (case sharedWorkspace p of
        Inl e' \<Rightarrow> e' = e
      | Inr workspace \<Rightarrow>
     (case iconForFile p workspace app_path of
        Inl e' \<Rightarrow> e' = e
      | Inr None \<Rightarrow> False
      | Inr (Some icon) \<Rightarrow>
     (case setSize p icon (sz, sz) of
        Inl e' \<Rightarrow> e' = e
      | Inr icon' \<Rightarrow>
     (case TIFFRepresentation p icon' of
        Inl e' \<Rightarrow> e' = e
      | Inr tiff_data \<Rightarrow>
     (case imageRepWithData p tiff_data of
        Inl e' \<Rightarrow> e' = e
      | Inr None \<Rightarrow> e = no_attribute
      | Inr (Some bitmap_rep) \<Rightarrow>
     (case representationUsingType_properties p bitmap_rep of
        Inl e' \<Rightarrow> e' = e
      | Inr png_data \<Rightarrow>
          if fs w output_path = Some Directory then e = is_a_directory p output_path
          else
     (case open_error p output_path of
        Some e' \<Rightarrow> e' = e
      | None \<Rightarrow>
     (case png_data of
        None \<Rightarrow> e = not_bytes_like
      | Some data \<Rightarrow>
     (case write_error p output_path data of
        Some (e', n) \<Rightarrow> e' = e
      | None \<Rightarrow> False))))))))))"

text \<open>
  The PNG bytes of a call: what the platform's encoder returns for the icon of
  \<open>app_path\<close> after \<open>setSize_((size, size))\<close>, when every call up to there returns.
\<close>

definition png_bytes :: "'o platform \<Rightarrow> str \<Rightarrow> int \<Rightarrow> bytes option" where
  "png_bytes p app_path sz =
     (case import_AppKit p of
        Some e \<Rightarrow> None
      | None \<Rightarrow>
     (case sharedWorkspace p of
        Inl e \<Rightarrow> None
      | Inr workspace \<Rightarrow>
     (case iconForFile p workspace app_path of
        Inr (Some icon) \<Rightarrow>
     (case setSize p icon (sz, sz) of
        Inl e \<Rightarrow> None
      | Inr icon' \<Rightarrow>
     (case TIFFRepresentation p icon' of
        Inl e \<Rightarrow> None
      | Inr tiff_data \<Rightarrow>
     (case imageRepWithData p tiff_data of
        Inr (Some bitmap_rep) \<Rightarrow>
     (case representationUsingType_properties p bitmap_rep of
        Inr (Some data) \<Rightarrow> Some data
      | _ \<Rightarrow> None)
      | _ \<Rightarrow> None)))
      | _ \<Rightarrow> None)))"

text \<open>
  The exception \<open>print(text, file=sys.stderr)\<close> raises, if any: the one with which
  the stream that the line ends on refuses it.
\<close>

definition stderr_print_raises :: "'o platform \<Rightarrow> str \<Rightarrow> py_exception option" where
  "stderr_print_raises p text =
     (case (case sys_stderr p of Absent \<Rightarrow> sys_stdout p | Present accept \<Rightarrow> Present accept) of
        Absent \<Rightarrow> None
      | Present accept \<Rightarrow>
          (case accept (text @ [10]) of Failed e \<Rightarrow> Some e | _ \<Rightarrow> None))"

text \<open>
  A decimal integer literal in the widest sense: an optional sign, then decimal digits
  of any script, single underscores allowed between two digits, and nothing else.
  \<open>int_accepts\<close> says which strings \<open>int\<close> takes: those that are such a literal
  once the white space at both ends is taken off, and that have no more digits than
  the interpreter allows. \<open>int_value\<close> is the number such a string stands for.
\<close>

definition decimal_integer_literal :: "'o platform \<Rightarrow> str \<Rightarrow> bool" where
  "decimal_integer_literal p s =
     (let body = snd (strip_sign s)
      in underscores_ok p body \<and> list_all (digit_or_underscore p) body)"

definition trim :: "'o platform \<Rightarrow> str \<Rightarrow> str" where
  "trim p s = rev (dropWhile (is_space p) (rev (dropWhile (is_space p) s)))"

definition digit_count :: "'o platform \<Rightarrow> str \<Rightarrow> nat" where
  "digit_count p s = length (filter (is_digit p) s)"

definition int_accepts :: "'o platform \<Rightarrow> str \<Rightarrow> bool" where
  "int_accepts p s =
     (decimal_integer_literal p (trim p s) \<and> \<not> over_limit p (digit_count p s))"

definition int_value :: "'o platform \<Rightarrow> str \<Rightarrow> int" where
  "int_value p s =
     (let (negative, body) = strip_sign (trim p s)
      in (if negative then - 1 else 1) *
         foldl (\<lambda>a c. 10 * a + digit_value p c) 0 (filter (is_digit p) body))"

text \<open>
  The pixel dimensions a PNG file declares: after the eight bytes of the signature
  comes the \<open>IHDR\<close> chunk, thirteen bytes long, which starts with the width and the
  height, four bytes each, most significant first. A file that is a valid PNG of
  \<open>n\<close> by \<open>n\<close> pixels has \<open>png_dimensions\<close> equal to \<open>Some (n, n)\<close>.
\<close>

definition png_header :: bytes where
  "png_header =
     [CHR 0x89, CHR ''P'', CHR ''N'', CHR ''G'', CHR 0x0D, CHR 0x0A, CHR 0x1A, CHR 0x0A,
      CHR 0x00, CHR 0x00, CHR 0x00, CHR 0x0D, CHR ''I'', CHR ''H'', CHR ''D'', CHR ''R'']"



section \<open>extract-icon.py: example platforms\<close>

text \<open>
  The tables of Unicode 14, the version of CPython 3.11: the white space from U+0080
  on, and the zero of each of the 66 runs of ten decimal digits. \<open>example_repr\<close> is
  \<open>repr\<close> on strings of ASCII characters; characters beyond ASCII it shows as they
  are, as the interpreter does with the printable ones.
\<close>

definition unicode_14_spaces :: "nat list" where
  "unicode_14_spaces =
     [133, 160, 5760, 8192, 8193, 8194, 8195, 8196, 8197, 8198, 8199, 8200, 8201, 8202,
      8232, 8233, 8239, 8287, 12288]"

definition unicode_14_zeros :: "nat list" where
  "unicode_14_zeros =
     [48, 1632, 1776, 1984, 2406, 2534, 2662, 2790, 2918, 3046, 3174, 3302, 3430, 3558,
      3664, 3792, 3872, 4160, 4240, 6112, 6160, 6470, 6608, 6784, 6800, 6992, 7088, 7232,
      7248, 42528, 43216, 43264, 43472, 43504, 43600, 44016, 65296, 66720, 68912, 69734,
      69872, 69942, 70096, 70384, 70736, 70864, 71248, 71360, 71472, 71904, 72016, 72784,
      73040, 73120, 92768, 92864, 93008, 120782, 120792, 120802, 120812, 120822, 123200,
      123632, 125264, 130032]"

definition hex_digit :: "nat \<Rightarrow> nat" where
  "hex_digit n = (if n < 10 then 48 + n else 87 + n)"

definition escape :: "nat \<Rightarrow> nat \<Rightarrow> str" where
  "escape q c =
     (if c = q \<or> c = 92 then [92, c]
      else if c = 9 then [92, 116]
      else if c = 10 then [92, 110]
      else if c = 13 then [92, 114]
      else if c < 32 \<or> c = 127 then [92, 120, hex_digit (c div 16), hex_digit (c mod 16)]
      else [c])"

definition example_repr :: "str \<Rightarrow> str" where
  "example_repr s =
     (let q = (if 39 \<in> set s \<and> 34 \<notin> set s then 34 else 39)
      in [q] @ concat (map (escape q) s) @ [q])"

text \<open>
  The objects of the example hosts. An image has the pixel size of its stored
  representation and the size set on it. \<open>example_png\<close> is the first 24 bytes of a
  PNG file of the given dimensions.
\<close>

datatype example_object =
    NSWorkspace
  | NSImage "int \<times> int" "int \<times> int"
  | NSData "int \<times> int"
  | NSBitmapImageRep "int \<times> int"

definition be32_bytes :: "nat \<Rightarrow> bytes" where
  "be32_bytes n =
     [char_of (n div 16777216), char_of (n div 65536), char_of (n div 256), char_of n]"

definition example_png :: "int \<times> int \<Rightarrow> bytes" where
  "example_png dims = png_header @ be32_bytes (nat (fst dims)) @ be32_bytes (nat (snd dims))"

text \<open>
  \<open>generic_icon_host\<close>: a host with PyObjC whose icon service answers every path,
  known or not, with an icon of 32 by 32 pixels (the generic one where it finds
  nothing better), whose encoder renders the image at the size set on it, whose disk
  takes every write and whose streams write every line. The other hosts differ from it
  in one respect each:
  \<^item> \<open>without_pyobjc\<close>: the interpreter has no PyObjC;
  \<^item> \<open>no_icon_host\<close>: the icon service answers \<open>nil\<close>;
  \<^item> \<open>native_size_host\<close>: the TIFF data carry the stored representation, whatever
    size is set on the image;
  \<^item> \<open>resize_fails\<close>, \<open>no_tiff_host\<close>, \<open>no_bitmap_host\<close>, \<open>nil_encoder_host\<close>: the
    resize raises, and each of the three encoding calls answers \<open>nil\<close>;
  \<^item> \<open>import_error_in_lookup\<close>: the lookup raises an \<open>ImportError\<close>;
  \<^item> \<open>interrupted_lookup\<close>, \<open>interrupted\<close>: a \<open>KeyboardInterrupt\<close> arrives during
    the lookup, and while the file is written;
  \<^item> \<open>disk_full\<close>: the disk takes two bytes and no more;
  \<^item> \<open>close_fails\<close>: every byte is written and closing the file fails.
  \<open>full_device\<close> is a stream that refuses every line, \<open>full_device_buffered\<close> one
  that keeps every line in its buffer and fails to flush.
\<close>

definition no_appkit :: py_exception where
  "no_appkit = PyExc ModuleNotFoundError (ascii (''No module named '' @ quoted ''AppKit''))"

definition no_space :: py_exception where
  "no_space = PyExc OSError (ascii ''[Errno 28] No space left on device'')"

definition io_error :: py_exception where
  "io_error = PyExc OSError (ascii ''[Errno 5] Input/output error'')"

definition objc_error :: py_exception where
  "objc_error = PyExc ObjCError (ascii ''NSInvalidArgumentException - invalid size'')"

definition interrupt :: py_exception where
  "interrupt = PyExc KeyboardInterrupt []"

definition full_device :: stream where
  "full_device = Present (\<lambda>line. Failed no_space)"

definition full_device_buffered :: stream where
  "full_device_buffered = Present (\<lambda>line. Kept)"

definition generic_icon_host :: "example_object platform" where
  "generic_icon_host =
     \<lparr>import_AppKit = None,
      sharedWorkspace = Inr NSWorkspace,
      iconForFile = (\<lambda>workspace path. Inr (Some (NSImage (32, 32) (32, 32)))),
      setSize =
        (\<lambda>icon dims. case icon of NSImage pixels old \<Rightarrow> Inr (NSImage pixels dims)
                                | _ \<Rightarrow> Inr icon),
      TIFFRepresentation =
        (\<lambda>icon. case icon of NSImage pixels dims \<Rightarrow> Inr (Some (NSData dims))
                           | _ \<Rightarrow> Inr None),
      imageRepWithData =
        (\<lambda>d. case d of Some (NSData dims) \<Rightarrow> Inr (Some (NSBitmapImageRep dims))
                      | _ \<Rightarrow> Inr None),
      representationUsingType_properties =
        (\<lambda>r. case r of NSBitmapImageRep dims \<Rightarrow> Inr (Some (example_png dims))
                      | _ \<Rightarrow> Inr None),
      open_error = (\<lambda>path. None),
      write_error = (\<lambda>path data. None),
      sys_stdout = Present (\<lambda>line. Written),
      sys_stderr = Present (\<lambda>line. Written),
      white_space = unicode_14_spaces,
      decimal_zeros = unicode_14_zeros,
      repr = example_repr,
      int_max_str_digits = 4300\<rparr>"

definition without_pyobjc :: "example_object platform" where
  "without_pyobjc = generic_icon_host\<lparr>import_AppKit := Some no_appkit\<rparr>"

definition no_icon_host :: "example_object platform" where
  "no_icon_host = generic_icon_host\<lparr>iconForFile := (\<lambda>workspace path. Inr None)\<rparr>"

definition native_size_host :: "example_object platform" where
  "native_size_host =
     generic_icon_host
       \<lparr>TIFFRepresentation :=
          (\<lambda>icon. case icon of NSImage pixels dims \<Rightarrow> Inr (Some (NSData pixels))
                             | _ \<Rightarrow> Inr None)\<rparr>"

definition resize_fails :: "example_object platform" where
  "resize_fails = generic_icon_host\<lparr>setSize := (\<lambda>icon dims. Inl objc_error)\<rparr>"

definition no_tiff_host :: "example_object platform" where
  "no_tiff_host = generic_icon_host\<lparr>TIFFRepresentation := (\<lambda>icon. Inr None)\<rparr>"

definition no_bitmap_host :: "example_object platform" where
  "no_bitmap_host = generic_icon_host\<lparr>imageRepWithData := (\<lambda>d. Inr None)\<rparr>"

definition nil_encoder_host :: "example_object platform" where
  "nil_encoder_host =
     generic_icon_host\<lparr>representationUsingType_properties := (\<lambda>r. Inr None)\<rparr>"

definition import_error_in_lookup :: "example_object platform" where
  "import_error_in_lookup =
     generic_icon_host\<lparr>iconForFile := (\<lambda>workspace path. Inl no_appkit)\<rparr>"

definition interrupted_lookup :: "example_object platform" where
  "interrupted_lookup =
     generic_icon_host\<lparr>iconForFile := (\<lambda>workspace path. Inl interrupt)\<rparr>"

definition interrupted :: "example_object platform" where
  "interrupted = generic_icon_host\<lparr>write_error := (\<lambda>path data. Some (interrupt, 0))\<rparr>"

definition disk_full :: "example_object platform" where
  "disk_full = generic_icon_host\<lparr>write_error := (\<lambda>path data. Some (no_space, 2))\<rparr>"

definition close_fails :: "example_object platform" where
  "close_fails =
     generic_icon_host\<lparr>write_error := (\<lambda>path data. Some (io_error, length data))\<rparr>"

text \<open>
  Paths and worlds of the examples: nothing at all; the application alone; the
  application and an older file at the output path.
\<close>

definition script :: str where
  "script = ascii ''extract-icon.py''"

definition notes_app :: str where
  "notes_app = ascii ''/Applications/Notes.app''"

definition no_such_app :: str where
  "no_such_app = ascii ''/no/such.app''"

definition icon_png :: str where
  "icon_png = ascii ''/tmp/icon.png''"

definition empty_world :: world where
  "empty_world = \<lparr>fs = Map.empty, stdout = [], stderr = [], unflushed = False\<rparr>"

definition world_with_app :: world where
  "world_with_app = empty_world\<lparr>fs := [notes_app \<mapsto> Directory]\<rparr>"

definition world_with_old_icon :: world where
  "world_with_old_icon =
     empty_world\<lparr>fs := [notes_app \<mapsto> Directory, icon_png \<mapsto> RegularFile ''old'']\<rparr>"

section \<open>feature\_flags.py: the response models\<close>

text \<open>
  The values a caller can hand to the two constructors. A dictionary is the list of
  its items, keys distinct. \<open>PyRolloutInfo\<close> is an instance of
  \<open>FeatureFlagsRolloutInfo\<close> built earlier.
\<close>

datatype py_value =
    PyNone
  | PyBool bool
  | PyInt int
  | PyStr string
  | PyDict "(string \<times> py_value) list"
  | PyRolloutInfo bool bool bool bool

type_synonym kwargs = "(string \<times> py_value) list"

text \<open>
  A failed construction raises one \<open>ValidationError\<close> listing every field at fault,
  each with its location and the kind of error.
\<close>

datatype error_type = Missing | BoolType | StringType | DictType | ModelType

type_synonym error_details = "(string list \<times> error_type) list"

text \<open>
  Which values the library takes for a \<open>bool\<close> and for a \<open>str\<close> depends on its
  version and mode; the two conversions are parameters. \<open>strict\<close> takes booleans and
  strings only.
\<close>

record coercion =
  as_bool :: "py_value \<Rightarrow> bool option"
  as_str :: "py_value \<Rightarrow> string option"

definition strict :: coercion where
  "strict =
     \<lparr>as_bool = (\<lambda>v. case v of PyBool b \<Rightarrow> Some b | _ \<Rightarrow> None),
      as_str = (\<lambda>v. case v of PyStr s \<Rightarrow> Some s | _ \<Rightarrow> None)\<rparr>"

record FeatureFlagsRolloutInfo =
  websocket_enabled :: bool
  evidence_validation_enabled :: bool
  billing_enabled :: bool
  hmac_enabled :: bool

record FeatureFlagsResponse =
  flags :: "(string \<times> bool) list"
  user_id :: "string option"
  rollout_info :: FeatureFlagsRolloutInfo

definition errors_of :: "error_details + 'a \<Rightarrow> error_details" where
  "errors_of r = (case r of Inl errs \<Rightarrow> errs | Inr v \<Rightarrow> [])"

definition at_loc :: "string \<Rightarrow> error_details + 'a \<Rightarrow> error_details + 'a" where
  "at_loc name r =
     (case r of
        Inl errs \<Rightarrow> Inl (map (\<lambda>(loc, t). (name # loc, t)) errs)
      | Inr v \<Rightarrow> Inr v)"

text \<open>
  One field of a model: \<open>Field(...)\<close> has no default (\<open>None\<close> here) and a missing
  value is an error; \<open>Field(default=d)\<close> gives \<open>d\<close> when the value is missing. A value
  that is present is validated against the field's type.
\<close>

definition field ::
  "kwargs \<Rightarrow> string \<Rightarrow> (py_value \<Rightarrow> error_details + 'a) \<Rightarrow> 'a option \<Rightarrow> error_details + 'a" where
  "field kw name validate dflt =
     (case map_of kw name of
        None \<Rightarrow> (case dflt of None \<Rightarrow> Inl [([name], Missing)] | Some d \<Rightarrow> Inr d)
      | Some v \<Rightarrow> at_loc name (validate v))"

definition validate_bool :: "coercion \<Rightarrow> py_value \<Rightarrow> error_details + bool" where
  "validate_bool c v =
     (case as_bool c v of None \<Rightarrow> Inl [([], BoolType)] | Some b \<Rightarrow> Inr b)"

definition validate_optional_str ::
  "coercion \<Rightarrow> py_value \<Rightarrow> error_details + string option" where
  "validate_optional_str c v =
     (if v = PyNone then Inr None
      else case as_str c v of None \<Rightarrow> Inl [([], StringType)] | Some s \<Rightarrow> Inr (Some s))"

fun validate_items :: "coercion \<Rightarrow> kwargs \<Rightarrow> error_details + (string \<times> bool) list" where
  "validate_items c [] = Inr []"
| "validate_items c ((k, v) # kvs) =
     (let r1 = at_loc k (validate_bool c v);
          r2 = validate_items c kvs
      in if isl r1 \<or> isl r2 then Inl (errors_of r1 @ errors_of r2)
         else Inr ((k, projr r1) # projr r2))"

definition validate_dict_str_bool ::
  "coercion \<Rightarrow> py_value \<Rightarrow> error_details + (string \<times> bool) list" where
  "validate_dict_str_bool c v =
     (case v of PyDict kvs \<Rightarrow> validate_items c kvs | _ \<Rightarrow> Inl [([], DictType)])"

text \<open>Lines 12 to 18: four booleans, each required.\<close>

definition FeatureFlagsRolloutInfo_init ::
  "coercion \<Rightarrow> kwargs \<Rightarrow> error_details + FeatureFlagsRolloutInfo" where
  "FeatureFlagsRolloutInfo_init c kw =
     (let r1 = field kw ''websocket_enabled'' (validate_bool c) None;
          r2 = field kw ''evidence_validation_enabled'' (validate_bool c) None;
          r3 = field kw ''billing_enabled'' (validate_bool c) None;
          r4 = field kw ''hmac_enabled'' (validate_bool c) None
      in if isl r1 \<or> isl r2 \<or> isl r3 \<or> isl r4
         then Inl (errors_of r1 @ errors_of r2 @ errors_of r3 @ errors_of r4)
         else Inr \<lparr>websocket_enabled = projr r1,
                   evidence_validation_enabled = projr r2,
                   billing_enabled = projr r3,
                   hmac_enabled = projr r4\<rparr>)"

text \<open>The names of the four fields, in the order of lines 15 to 18.\<close>

definition rollout_fields :: "string list" where
  "rollout_fields =
     [''websocket_enabled'', ''evidence_validation_enabled'', ''billing_enabled'',
      ''hmac_enabled'']"

text \<open>
  A field of type \<open>FeatureFlagsRolloutInfo\<close> takes an instance as it is, and a
  dictionary through the constructor.
\<close>

definition validate_rollout_info ::
  "coercion \<Rightarrow> py_value \<Rightarrow> error_details + FeatureFlagsRolloutInfo" where
  "validate_rollout_info c v =
     (case v of
        PyRolloutInfo a b d e \<Rightarrow>
          Inr \<lparr>websocket_enabled = a, evidence_validation_enabled = b,
               billing_enabled = d, hmac_enabled = e\<rparr>
      | PyDict kvs \<Rightarrow> FeatureFlagsRolloutInfo_init c kvs
      | _ \<Rightarrow> Inl [([], ModelType)])"

text \<open>
  Lines 21 to 28: \<open>flags\<close> and \<open>rollout_info\<close> are required, \<open>user_id\<close> has the
  default \<open>None\<close>. Keyword arguments the model does not declare are ignored.
\<close>

definition FeatureFlagsResponse_init ::
  "coercion \<Rightarrow> kwargs \<Rightarrow> error_details + FeatureFlagsResponse" where
  "FeatureFlagsResponse_init c kw =
     (let r1 = field kw ''flags'' (validate_dict_str_bool c) None;
          r2 = field kw ''user_id'' (validate_optional_str c) (Some None);
          r3 = field kw ''rollout_info'' (validate_rollout_info c) None
      in if isl r1 \<or> isl r2 \<or> isl r3
         then Inl (errors_of r1 @ errors_of r2 @ errors_of r3)
         else Inr \<lparr>flags = projr r1, user_id = projr r2, rollout_info = projr r3\<rparr>)"

text \<open>The example of lines 32 to 46, and the same call without \<open>user_id\<close>.\<close>

definition example_rollout :: kwargs where
  "example_rollout =
     [(''websocket_enabled'', PyBool False),
      (''evidence_validation_enabled'', PyBool True),
      (''billing_enabled'', PyBool False),
      (''hmac_enabled'', PyBool True)]"

definition example_flags :: kwargs where
  "example_flags =
     [(''websocket_execution'', PyBool False),
      (''evidence_validation'', PyBool True),
      (''billing_enforcement'', PyBool False),
      (''hmac_security'', PyBool True)]"

definition example_response :: kwargs where
  "example_response =
     [(''flags'', PyDict example_flags),
      (''user_id'', PyStr ''desktop-user''),
      (''rollout_info'', PyDict example_rollout)]"

definition example_anonymous :: kwargs where
  "example_anonymous =
     [(''flags'', PyDict example_flags),
      (''rollout_info'', PyDict example_rollout)]"

section \<open>Facts about \<open>extract_icon\<close>\<close>

subsection \<open>Printing\<close>

lemma print_stderr_written:
  "sys_stderr p = Present accept \<Longrightarrow> accept (text @ [10]) = Written \<Longrightarrow>
   print_stderr p text w = (None, w\<lparr>stderr := stderr w @ text @ [10]\<rparr>)"
  by (simp add: print_stderr_def write_stream_def emit_def)


lemma write_stream_fs: "fs (snd (write_stream s ch line w)) = fs w"
  by (simp add: write_stream_def emit_def split: stream.splits print_result.splits
      channel.splits)

lemma print_stdout_fs: "fs (snd (print_stdout p text w)) = fs w"
  by (simp add: print_stdout_def write_stream_fs)

lemma print_stderr_fs: "fs (snd (print_stderr p text w)) = fs w"
  by (simp add: print_stderr_def print_stdout_fs write_stream_fs split: stream.splits)

lemma print_stderr_raises: "fst (print_stderr p text w) = stderr_print_raises p text"
  by (simp add: print_stderr_def print_stdout_def write_stream_def stderr_print_raises_def
      split: stream.splits print_result.splits)

subsection \<open>The two handlers\<close>

lemma handle_ImportError:
  "isinstance_ImportError (exc_cls e) \<Longrightarrow> handle_exception p e w = (Inr False, w)"
  by (simp add: handle_exception_def)

lemma ImportError_is_Exception:
  "isinstance_ImportError c \<Longrightarrow> isinstance_Exception c"
  by (cases c) simp_all

lemma handle_other:
  "\<not> isinstance_Exception (exc_cls e) \<Longrightarrow> handle_exception p e w = (Inl e, w)"
  using ImportError_is_Exception [of "exc_cls e"] by (auto simp: handle_exception_def)

lemma handle_Exception:
  "isinstance_Exception (exc_cls e) \<Longrightarrow> \<not> isinstance_ImportError (exc_cls e) \<Longrightarrow>
   fst (handle_exception p e w) =
     (case stderr_print_raises p (ascii ''Error: '' @ exc_str e) of
        Some e' \<Rightarrow> Inl e'
      | None \<Rightarrow> Inr False)"
  using print_stderr_raises [of p "ascii ''Error: '' @ exc_str e" w]
  by (cases "print_stderr p (ascii ''Error: '' @ exc_str e) w")
     (auto simp: handle_exception_def split: option.splits)

lemma handle_Exception_written:
  "isinstance_Exception (exc_cls e) \<Longrightarrow> \<not> isinstance_ImportError (exc_cls e) \<Longrightarrow>
   sys_stderr p = Present accept \<Longrightarrow> accept (ascii ''Error: '' @ exc_str e @ [10]) = Written \<Longrightarrow>
   handle_exception p e w =
     (Inr False, w\<lparr>stderr := stderr w @ ascii ''Error: '' @ exc_str e @ [10]\<rparr>)"
  using print_stderr_written [of p accept "ascii ''Error: '' @ exc_str e" w]
  by (simp add: handle_exception_def)

lemma handle_exception_fs: "fs (snd (handle_exception p e w)) = fs w"
  using print_stderr_fs [of p "ascii ''Error: '' @ exc_str e" w]
  by (cases "print_stderr p (ascii ''Error: '' @ exc_str e) w")
     (auto simp: handle_exception_def split: option.splits)

subsection \<open>Opening and writing the output file\<close>

lemma write_png_cases:
  "write_png p output_path png_data w =
     (if fs w output_path = Some Directory then (Some (is_a_directory p output_path), w)
      else case open_error p output_path of
        Some e \<Rightarrow> (Some e, w)
      | None \<Rightarrow>
        (case png_data of
           None \<Rightarrow> (Some not_bytes_like, w\<lparr>fs := (fs w)(output_path \<mapsto> RegularFile [])\<rparr>)
         | Some data \<Rightarrow>
           (case write_error p output_path data of
              Some (e, n) \<Rightarrow>
                (Some e, w\<lparr>fs := (fs w)(output_path \<mapsto> RegularFile (take n data))\<rparr>)
            | None \<Rightarrow> (None, w\<lparr>fs := (fs w)(output_path \<mapsto> RegularFile data)\<rparr>))))"
  by (simp add: write_png_def Let_def split: option.splits prod.splits)

lemma write_png_completes:
  "fs w output_path \<noteq> Some Directory \<Longrightarrow> open_error p output_path = None \<Longrightarrow>
   write_error p output_path data = None \<Longrightarrow>
   write_png p output_path (Some data) w =
     (None, w\<lparr>fs := (fs w)(output_path \<mapsto> RegularFile data)\<rparr>)"
  by (simp add: write_png_cases)

lemma write_png_returns:
  "fst (write_png p output_path png_data w) = None \<longleftrightarrow>
     (\<exists>data. png_data = Some data \<and> fs w output_path \<noteq> Some Directory \<and>
        open_error p output_path = None \<and> write_error p output_path data = None)"
  by (auto simp: write_png_cases split: option.splits)

lemma write_png_streams:
  "stdout (snd (write_png p output_path png_data w)) = stdout w \<and>
   stderr (snd (write_png p output_path png_data w)) = stderr w \<and>
   unflushed (snd (write_png p output_path png_data w)) = unflushed w"
  by (simp add: write_png_cases split: option.splits)

subsection \<open>The body of the \<open>try\<close>\<close>

lemma render_png_import_fails:
  "import_AppKit p = Some e \<Longrightarrow> render_png p app_path sz = Inl e"
  by (simp add: render_png_def)

lemma render_png_no_icon:
  "import_AppKit p = None \<Longrightarrow> sharedWorkspace p = Inr workspace \<Longrightarrow>
   iconForFile p workspace app_path = Inr None \<Longrightarrow> render_png p app_path sz = Inr None"
  by (simp add: render_png_def)

lemma render_png_bytes:
  "render_png p app_path sz = Inr (Some (Some data)) \<longleftrightarrow> png_bytes p app_path sz = Some data"
  by (simp add: render_png_def png_bytes_def split: option.splits sum.splits)

lemma extract_icon_try_render_fails:
  "render_png p app_path sz = Inl e \<Longrightarrow>
   extract_icon_try p app_path output_path sz w = (Inl e, w)"
  by (simp add: extract_icon_try_def)

lemma extract_icon_try_no_icon:
  "render_png p app_path sz = Inr None \<Longrightarrow>
   extract_icon_try p app_path output_path sz w = (Inr False, w)"
  by (simp add: extract_icon_try_def)

text \<open>
  The body raises exactly the exceptions of \<open>step_raises\<close>, and returns \<open>True\<close>
  exactly when the platform gave PNG bytes and writing them completed.
\<close>

lemma extract_icon_try_raises:
  "fst (extract_icon_try p app_path output_path sz w) = Inl e \<longleftrightarrow>
     step_raises p app_path output_path sz w e"
  by (auto simp: extract_icon_try_def render_png_def write_png_cases step_raises_def
      split: option.splits sum.splits prod.splits if_splits)

lemma extract_icon_try_True:
  "fst (extract_icon_try p app_path output_path sz w) = Inr True \<longleftrightarrow>
     (\<exists>data. png_bytes p app_path sz = Some data \<and> fs w output_path \<noteq> Some Directory \<and>
        open_error p output_path = None \<and> write_error p output_path data = None)"
proof (cases "render_png p app_path sz")
  case (Inl e)
  then have "\<not> (\<exists>data. png_bytes p app_path sz = Some data)"
    using render_png_bytes [of p app_path sz] by auto
  with Inl show ?thesis by (auto simp: extract_icon_try_def)
next
  case (Inr icon)
  show ?thesis
  proof (cases icon)
    case None
    then have "\<not> (\<exists>data. png_bytes p app_path sz = Some data)"
      using render_png_bytes [of p app_path sz] Inr by auto
    with None Inr show ?thesis by (auto simp: extract_icon_try_def)
  next
    case (Some png_data)
    have bytes: "png_bytes p app_path sz = Some data \<longleftrightarrow> png_data = Some data" for data
      using render_png_bytes [of p app_path sz data] Inr Some by auto
    have "fst (extract_icon_try p app_path output_path sz w) = Inr True \<longleftrightarrow>
        fst (write_png p output_path png_data w) = None"
      using Inr Some
      by (cases "write_png p output_path png_data w")
         (auto simp: extract_icon_try_def split: option.splits)
    then show ?thesis
      by (simp add: write_png_returns bytes)
  qed
qed

lemma extract_icon_try_True_file:
  assumes "fst (extract_icon_try p app_path output_path sz w) = Inr True"
  shows "\<exists>data. png_bytes p app_path sz = Some data \<and>
     snd (extract_icon_try p app_path output_path sz w) =
       w\<lparr>fs := (fs w)(output_path \<mapsto> RegularFile data)\<rparr>"
proof -
  from assms obtain data where data: "png_bytes p app_path sz = Some data"
    "fs w output_path \<noteq> Some Directory" "open_error p output_path = None"
    "write_error p output_path data = None"
    using extract_icon_try_True by blast
  from data(1) have "render_png p app_path sz = Inr (Some (Some data))"
    by (simp add: render_png_bytes)
  with data show ?thesis
    by (simp add: extract_icon_try_def write_png_completes)
qed

lemma extract_icon_try_streams:
  "stdout (snd (extract_icon_try p app_path output_path sz w)) = stdout w \<and>
   stderr (snd (extract_icon_try p app_path output_path sz w)) = stderr w \<and>
   unflushed (snd (extract_icon_try p app_path output_path sz w)) = unflushed w"
proof (cases "render_png p app_path sz")
  case (Inl e)
  then show ?thesis by (simp add: extract_icon_try_def)
next
  case (Inr icon)
  show ?thesis
  proof (cases icon)
    case None
    with Inr show ?thesis by (simp add: extract_icon_try_def)
  next
    case (Some png_data)
    with Inr write_png_streams [of p output_path png_data w] show ?thesis
      by (cases "write_png p output_path png_data w")
         (auto simp: extract_icon_try_def split: option.splits)
  qed
qed

subsection \<open>The function as a whole\<close>

lemma extract_icon_unfold:
  "extract_icon p app_path output_path (Some sz) w =
     (case fst (extract_icon_try p app_path output_path sz w) of
        Inl e \<Rightarrow> handle_exception p e (snd (extract_icon_try p app_path output_path sz w))
      | Inr b \<Rightarrow> (Inr b, snd (extract_icon_try p app_path output_path sz w)))"
  by (simp add: extract_icon_def split: prod.splits sum.splits)


lemma extract_icon_raises:
  "step_raises p app_path output_path sz w e \<Longrightarrow>
   extract_icon p app_path output_path (Some sz) w =
     handle_exception p e (snd (extract_icon_try p app_path output_path sz w))"
  by (simp add: extract_icon_unfold extract_icon_try_raises [symmetric])

lemma step_raises_unique:
  "step_raises p app_path output_path sz w e \<Longrightarrow>
   step_raises p app_path output_path sz w e' \<Longrightarrow> e = e'"
  by (simp add: extract_icon_try_raises [symmetric])

lemma extract_icon_True:
  "fst (extract_icon p app_path output_path (Some sz) w) = Inr True \<longleftrightarrow>
   fst (extract_icon_try p app_path output_path sz w) = Inr True"
proof (cases "fst (extract_icon_try p app_path output_path sz w)")
  case (Inl e)
  then have "fst (extract_icon p app_path output_path (Some sz) w) \<noteq> Inr True"
    using handle_Exception [of e p] handle_other [of e p] handle_ImportError [of e p]
    by (cases "isinstance_Exception (exc_cls e)"; cases "isinstance_ImportError (exc_cls e)")
       (auto simp: extract_icon_unfold split: option.splits)
  with Inl show ?thesis by simp
next
  case (Inr b)
  then show ?thesis by (simp add: extract_icon_unfold)
qed

lemma extract_icon_fs:
  "fs (snd (extract_icon p app_path output_path (Some sz) w)) =
     fs (snd (extract_icon_try p app_path output_path sz w))"
  by (simp add: extract_icon_unfold handle_exception_fs split: sum.splits)


lemmas example_defs =
  generic_icon_host_def without_pyobjc_def no_icon_host_def native_size_host_def
  resize_fails_def no_tiff_host_def no_bitmap_host_def nil_encoder_host_def
  import_error_in_lookup_def interrupted_lookup_def interrupted_def disk_full_def
  close_fails_def full_device_def full_device_buffered_def
  no_appkit_def no_space_def io_error_def objc_error_def interrupt_def
  empty_world_def world_with_app_def world_with_old_icon_def
  script_def notes_app_def no_such_app_def icon_png_def ascii_def

lemmas run_defs =
  extract_icon_def extract_icon_try_def render_png_def write_png_def handle_exception_def
  print_stderr_def print_stdout_def write_stream_def emit_def
  no_attribute_def not_bytes_like_def is_a_directory_def


section \<open>The claims about \<open>extract_icon\<close>\<close>

text \<open>
  C1, as the source has it. \<open>extract_icon\<close> returns \<open>True\<close> exactly when the platform
  calls produced PNG bytes and the file at \<open>output_path\<close> was opened, written and
  closed without an exception; the file then holds those bytes. It returns \<open>False\<close>
  and leaves the world as it was when the lookup found no icon and when the import
  fails with an \<open>ImportError\<close>. It returns \<open>False\<close> when a step of the body raises an
  exception derived from \<open>Exception\<close>, provided that exception is an \<open>ImportError\<close> or
  the diagnostic \<open>print\<close> of line 37 does not itself raise. Two kinds of exception
  leave the function and no other: one a step of the body raised that is outside the
  \<open>Exception\<close> hierarchy (\<open>KeyboardInterrupt\<close>, \<open>SystemExit\<close>), and the one the
  diagnostic \<open>print\<close> raised while an exception of the body was being reported.
\<close>

theorem extract_icon_outcome:
  "(fst (extract_icon p app_path output_path (Some sz) w) = Inr True \<longleftrightarrow>
      (\<exists>data. png_bytes p app_path sz = Some data \<and> fs w output_path \<noteq> Some Directory \<and>
         open_error p output_path = None \<and> write_error p output_path data = None)) \<and>
   (fst (extract_icon p app_path output_path (Some sz) w) = Inr True \<longrightarrow>
      (\<exists>data. png_bytes p app_path sz = Some data \<and>
         fs (snd (extract_icon p app_path output_path (Some sz) w)) output_path =
           Some (RegularFile data))) \<and>
   (\<forall>workspace. import_AppKit p = None \<and> sharedWorkspace p = Inr workspace \<and>
      iconForFile p workspace app_path = Inr None \<longrightarrow>
      extract_icon p app_path output_path (Some sz) w = (Inr False, w)) \<and>
   (\<forall>e. import_AppKit p = Some e \<and> isinstance_ImportError (exc_cls e) \<longrightarrow>
      extract_icon p app_path output_path (Some sz) w = (Inr False, w)) \<and>
   (\<forall>e. step_raises p app_path output_path sz w e \<and> isinstance_Exception (exc_cls e) \<and>
      (isinstance_ImportError (exc_cls e) \<or>
       stderr_print_raises p (ascii ''Error: '' @ exc_str e) = None) \<longrightarrow>
      fst (extract_icon p app_path output_path (Some sz) w) = Inr False) \<and>
   (\<forall>e. step_raises p app_path output_path sz w e \<and> \<not> isinstance_Exception (exc_cls e) \<longrightarrow>
      fst (extract_icon p app_path output_path (Some sz) w) = Inl e) \<and>
   (\<forall>e e'. step_raises p app_path output_path sz w e \<and> isinstance_Exception (exc_cls e) \<and>
      \<not> isinstance_ImportError (exc_cls e) \<and>
      stderr_print_raises p (ascii ''Error: '' @ exc_str e) = Some e' \<longrightarrow>
      fst (extract_icon p app_path output_path (Some sz) w) = Inl e') \<and>
   (\<forall>e'. fst (extract_icon p app_path output_path (Some sz) w) = Inl e' \<longrightarrow>
      step_raises p app_path output_path sz w e' \<and> \<not> isinstance_Exception (exc_cls e') \<or>
      (\<exists>e. step_raises p app_path output_path sz w e \<and> isinstance_Exception (exc_cls e) \<and>
         \<not> isinstance_ImportError (exc_cls e) \<and>
         stderr_print_raises p (ascii ''Error: '' @ exc_str e) = Some e'))"
proof -
  let ?body = "extract_icon_try p app_path output_path sz w"
  let ?run = "extract_icon p app_path output_path (Some sz) w"
  have written: "fst ?run = Inr True \<longleftrightarrow>
      (\<exists>data. png_bytes p app_path sz = Some data \<and> fs w output_path \<noteq> Some Directory \<and>
         open_error p output_path = None \<and> write_error p output_path data = None)"
    by (simp add: extract_icon_True extract_icon_try_True)
  have holds: "fst ?run = Inr True \<longrightarrow>
      (\<exists>data. png_bytes p app_path sz = Some data \<and>
         fs (snd ?run) output_path = Some (RegularFile data))"
  proof
    assume "fst ?run = Inr True"
    then have "fst ?body = Inr True" by (simp add: extract_icon_True)
    from extract_icon_try_True_file [OF this] show "\<exists>data. png_bytes p app_path sz = Some data \<and>
        fs (snd ?run) output_path = Some (RegularFile data)"
      by (auto simp: extract_icon_fs)
  qed
  have no_icon: "\<forall>workspace. import_AppKit p = None \<and> sharedWorkspace p = Inr workspace \<and>
      iconForFile p workspace app_path = Inr None \<longrightarrow> ?run = (Inr False, w)"
    by (simp add: extract_icon_def render_png_no_icon extract_icon_try_no_icon)
  have absent: "\<forall>e. import_AppKit p = Some e \<and> isinstance_ImportError (exc_cls e) \<longrightarrow>
      ?run = (Inr False, w)"
    by (simp add: extract_icon_def render_png_import_fails extract_icon_try_render_fails
        handle_ImportError)
  have caught: "fst ?run = Inr False"
    if "step_raises p app_path output_path sz w e" "isinstance_Exception (exc_cls e)"
      "isinstance_ImportError (exc_cls e) \<or>
       stderr_print_raises p (ascii ''Error: '' @ exc_str e) = None" for e
    using that
    by (cases "isinstance_ImportError (exc_cls e)")
       (simp_all add: extract_icon_raises handle_ImportError handle_Exception)
  have passes: "fst ?run = Inl e"
    if "step_raises p app_path output_path sz w e" "\<not> isinstance_Exception (exc_cls e)" for e
    using that by (simp add: extract_icon_raises handle_other)
  have print_fails: "fst ?run = Inl e'"
    if "step_raises p app_path output_path sz w e" "isinstance_Exception (exc_cls e)"
      "\<not> isinstance_ImportError (exc_cls e)"
      "stderr_print_raises p (ascii ''Error: '' @ exc_str e) = Some e'" for e e'
    using that by (simp add: extract_icon_raises handle_Exception)
  have leaves: "step_raises p app_path output_path sz w e' \<and>
        \<not> isinstance_Exception (exc_cls e') \<or>
      (\<exists>e. step_raises p app_path output_path sz w e \<and> isinstance_Exception (exc_cls e) \<and>
         \<not> isinstance_ImportError (exc_cls e) \<and>
         stderr_print_raises p (ascii ''Error: '' @ exc_str e) = Some e')"
    if out: "fst ?run = Inl e'" for e'
  proof (cases "fst ?body")
    case (Inr b)
    with out show ?thesis by (simp add: extract_icon_unfold)
  next
    case (Inl e)
    then have step: "step_raises p app_path output_path sz w e"
      by (simp add: extract_icon_try_raises)
    show ?thesis
    proof (cases "isinstance_Exception (exc_cls e)")
      case False
      with step out passes [OF step False] show ?thesis by simp
    next
      case True
      show ?thesis
      proof (cases "isinstance_ImportError (exc_cls e)")
        case True
        with step out show ?thesis by (simp add: extract_icon_raises handle_ImportError)
      next
        case False
        with step True out
        have "stderr_print_raises p (ascii ''Error: '' @ exc_str e) = Some e'"
          by (simp add: extract_icon_raises handle_Exception split: option.splits)
        with step True False show ?thesis by blast
      qed
    qed
  qed
  from written holds no_icon absent caught passes print_fails leaves show ?thesis
    by blast
qed

text \<open>
  Three runs the unconditional reading does not survive: an interrupt during the lookup
  leaves the function; with an error stream that refuses the line, the \<open>OSError\<close> of
  the diagnostic \<open>print\<close>, an exception derived from \<open>Exception\<close>, leaves it; and when
  only closing the file fails, every byte is in the file and the result is \<open>False\<close>.
\<close>

theorem extract_icon_outcome_counterexample:
  "fst (extract_icon interrupted_lookup notes_app icon_png (Some 64) world_with_app) =
     Inl interrupt \<and>
   fst (extract_icon (resize_fails\<lparr>sys_stderr := full_device\<rparr>) notes_app icon_png (Some 64)
          world_with_app) = Inl no_space \<and>
   isinstance_Exception (exc_cls no_space) \<and>
   png_bytes close_fails notes_app 64 = Some (example_png (64, 64)) \<and>
   fs (snd (extract_icon close_fails notes_app icon_png (Some 64) world_with_app)) icon_png =
     Some (RegularFile (example_png (64, 64))) \<and>
   fst (extract_icon close_fails notes_app icon_png (Some 64) world_with_app) = Inr False"
  by (simp add: run_defs png_bytes_def example_defs)

theorem extract_icon_outcome_witness:
  "fst (extract_icon generic_icon_host notes_app icon_png (Some 64) world_with_app) =
     Inr True \<and>
   fs (snd (extract_icon generic_icon_host notes_app icon_png (Some 64) world_with_app))
     icon_png = Some (RegularFile (example_png (64, 64))) \<and>
   extract_icon no_icon_host notes_app icon_png (Some 64) world_with_app =
     (Inr False, world_with_app) \<and>
   extract_icon without_pyobjc notes_app icon_png (Some 64) world_with_app =
     (Inr False, world_with_app) \<and>
   step_raises disk_full notes_app icon_png 64 world_with_app no_space \<and>
   fst (extract_icon disk_full notes_app icon_png (Some 64) world_with_app) = Inr False \<and>
   step_raises interrupted notes_app icon_png 64 world_with_app interrupt \<and>
   fst (extract_icon interrupted notes_app icon_png (Some 64) world_with_app) =
     Inl interrupt \<and>
   step_raises (resize_fails\<lparr>sys_stderr := full_device\<rparr>) notes_app icon_png 64
     world_with_app objc_error \<and>
   fst (extract_icon (resize_fails\<lparr>sys_stderr := full_device\<rparr>) notes_app icon_png (Some 64)
     world_with_app) = Inl no_space"
  using
    extract_icon_outcome [of generic_icon_host notes_app icon_png 64 world_with_app]
    extract_icon_outcome [of no_icon_host notes_app icon_png 64 world_with_app]
    extract_icon_outcome [of without_pyobjc notes_app icon_png 64 world_with_app]
    extract_icon_outcome [of disk_full notes_app icon_png 64 world_with_app]
    extract_icon_outcome [of interrupted notes_app icon_png 64 world_with_app]
    extract_icon_outcome [of "resize_fails\<lparr>sys_stderr := full_device\<rparr>" notes_app icon_png 64
      world_with_app]
  by (simp add: run_defs step_raises_def example_defs)




text \<open>
  C3, as the source has it. The only test of the bundle path is line 20, on the answer
  of the icon service: when the service answers with no icon (\<open>nil\<close>),
  \<open>extract_icon\<close> returns \<open>False\<close> and the world is as it was, so no file is created
  at \<open>output_path\<close> and a file already there is untouched.
\<close>

theorem no_icon_no_output:
  "import_AppKit p = None \<Longrightarrow> sharedWorkspace p = Inr workspace \<Longrightarrow>
   iconForFile p workspace app_path = Inr None \<Longrightarrow>
   extract_icon p app_path output_path size_arg w = (Inr False, w)"
  by (simp add: extract_icon_def render_png_no_icon extract_icon_try_no_icon)

text \<open>
  A host whose service answers every path with an icon, a generic one for a path that
  does not exist: \<open>extract_icon\<close> returns \<open>True\<close> for such a path and creates the file.
\<close>

theorem no_icon_no_output_counterexample:
  "\<not> path_exists empty_world no_such_app \<and>
   fst (extract_icon generic_icon_host no_such_app icon_png (Some 64) empty_world) =
     Inr True \<and>
   fs empty_world icon_png = None \<and>
   fs (snd (extract_icon generic_icon_host no_such_app icon_png (Some 64) empty_world))
     icon_png = Some (RegularFile (example_png (64, 64)))"
  by (simp add: run_defs example_defs path_exists_def)

theorem no_icon_no_output_witness:
  "import_AppKit no_icon_host = None \<and> sharedWorkspace no_icon_host = Inr NSWorkspace \<and>
   iconForFile no_icon_host NSWorkspace no_such_app = Inr None \<and>
   extract_icon no_icon_host no_such_app icon_png (Some 64) empty_world =
     (Inr False, empty_world) \<and>
   extract_icon no_icon_host no_such_app icon_png (Some 64) world_with_old_icon =
     (Inr False, world_with_old_icon) \<and>
   fs world_with_old_icon icon_png = Some (RegularFile ''old'')"
  using
    no_icon_no_output [of no_icon_host NSWorkspace no_such_app icon_png "Some 64" empty_world]
    no_icon_no_output [of no_icon_host NSWorkspace no_such_app icon_png "Some 64"
      world_with_old_icon]
  by (simp add: example_defs)

text \<open>
  C4. When the import of line 15 fails with an \<open>ImportError\<close> (the platform layer
  cannot be loaded), \<open>extract_icon\<close> returns \<open>False\<close>, raises nothing and leaves the
  world, the error stream included, as it was.
\<close>

theorem capability_absent_silent:
  "import_AppKit p = Some e \<Longrightarrow> isinstance_ImportError (exc_cls e) \<Longrightarrow>
   extract_icon p app_path output_path size_arg w = (Inr False, w)"
  by (simp add: extract_icon_def render_png_import_fails extract_icon_try_render_fails
      handle_ImportError)

theorem capability_absent_silent_witness:
  "import_AppKit without_pyobjc = Some no_appkit \<and>
   isinstance_ImportError (exc_cls no_appkit) \<and>
   extract_icon without_pyobjc notes_app icon_png None world_with_app =
     (Inr False, world_with_app) \<and>
   stderr world_with_app = []"
  using capability_absent_silent [of without_pyobjc no_appkit notes_app icon_png None
      world_with_app]
  by (simp add: without_pyobjc_def no_appkit_def world_with_app_def empty_world_def)

text \<open>
  C5, as the source has it. Every exception derived from \<open>Exception\<close>, other than an
  \<open>ImportError\<close> (which line 33 takes for the missing platform layer wherever it was
  raised), that a step of the body raises (the import, the lookup, the resize, the two
  encodings, opening, writing or closing the file) makes \<open>extract_icon\<close> return
  \<open>False\<close> with the line \<open>Error:\<close> and the exception's message added to the error
  stream, provided the error stream is there and writes that line.
\<close>

theorem exception_reported:
  "step_raises p app_path output_path sz w e \<Longrightarrow>
   isinstance_Exception (exc_cls e) \<Longrightarrow> \<not> isinstance_ImportError (exc_cls e) \<Longrightarrow>
   sys_stderr p = Present accept \<Longrightarrow>
   accept (ascii ''Error: '' @ exc_str e @ [10]) = Written \<Longrightarrow>
   fst (extract_icon p app_path output_path (Some sz) w) = Inr False \<and>
   stderr (snd (extract_icon p app_path output_path (Some sz) w)) =
     stderr w @ ascii ''Error: '' @ exc_str e @ [10]"
  by (simp add: extract_icon_raises handle_Exception_written extract_icon_try_streams)

text \<open>
  What the provisos exclude: an interrupt during the write is neither reported nor
  turned into \<open>False\<close>; an error stream that refuses the line makes the handler raise,
  with nothing reported; with no error stream the diagnostic goes to standard output;
  an \<open>ImportError\<close> raised by the lookup is taken silently for the missing layer.
\<close>

theorem exception_reported_counterexample:
  "step_raises interrupted notes_app icon_png 64 world_with_app interrupt \<and>
   fst (extract_icon interrupted notes_app icon_png (Some 64) world_with_app) =
     Inl interrupt \<and>
   stderr (snd (extract_icon interrupted notes_app icon_png (Some 64) world_with_app)) = [] \<and>
   step_raises (resize_fails\<lparr>sys_stderr := full_device\<rparr>) notes_app icon_png 64
     world_with_app objc_error \<and>
   fst (extract_icon (resize_fails\<lparr>sys_stderr := full_device\<rparr>) notes_app icon_png (Some 64)
     world_with_app) = Inl no_space \<and>
   stderr (snd (extract_icon (resize_fails\<lparr>sys_stderr := full_device\<rparr>) notes_app icon_png
     (Some 64) world_with_app)) = [] \<and>
   fst (extract_icon (resize_fails\<lparr>sys_stderr := Absent\<rparr>) notes_app icon_png (Some 64)
     world_with_app) = Inr False \<and>
   stderr (snd (extract_icon (resize_fails\<lparr>sys_stderr := Absent\<rparr>) notes_app icon_png
     (Some 64) world_with_app)) = [] \<and>
   stdout (snd (extract_icon (resize_fails\<lparr>sys_stderr := Absent\<rparr>) notes_app icon_png
     (Some 64) world_with_app)) = ascii ''Error: '' @ exc_str objc_error @ [10] \<and>
   step_raises import_error_in_lookup notes_app icon_png 64 world_with_app no_appkit \<and>
   extract_icon import_error_in_lookup notes_app icon_png (Some 64) world_with_app =
     (Inr False, world_with_app)"
  by (simp add: run_defs step_raises_def example_defs)

theorem exception_reported_witness:
  "step_raises disk_full notes_app icon_png 64 world_with_app no_space \<and>
   isinstance_Exception (exc_cls no_space) \<and> \<not> isinstance_ImportError (exc_cls no_space) \<and>
   sys_stderr disk_full = Present (\<lambda>line. Written) \<and>
   fst (extract_icon disk_full notes_app icon_png (Some 64) world_with_app) = Inr False \<and>
   stderr (snd (extract_icon disk_full notes_app icon_png (Some 64) world_with_app)) =
     ascii ''Error: [Errno 28] No space left on device'' @ [10] \<and>
   step_raises resize_fails notes_app icon_png 64 world_with_app objc_error \<and>
   fst (extract_icon resize_fails notes_app icon_png (Some 64) world_with_app) = Inr False \<and>
   stderr (snd (extract_icon resize_fails notes_app icon_png (Some 64) world_with_app)) =
     ascii ''Error: NSInvalidArgumentException - invalid size'' @ [10]"
  using
    exception_reported [of disk_full notes_app icon_png 64 world_with_app no_space
      "\<lambda>line. Written"]
    exception_reported [of resize_fails notes_app icon_png 64 world_with_app objc_error
      "\<lambda>line. Written"]
  by (simp add: run_defs step_raises_def example_defs)

section \<open>Facts about the command-line wrapper\<close>

subsection \<open>What \<open>int\<close> accepts\<close>

lemma space_not_digit_or_underscore: "is_space p c \<Longrightarrow> \<not> digit_or_underscore p c"
  by (auto simp: is_space_def digit_or_underscore_def is_digit_def decimal_digit_def)

lemma space_not_digit: "is_space p c \<Longrightarrow> \<not> is_digit p c"
  using space_not_digit_or_underscore [of p c] by (simp add: digit_or_underscore_def)

lemma sign_not_space: "\<not> is_space p 45" "\<not> is_space p 43"
  by (simp_all add: is_space_def)

lemma sign_not_digit: "\<not> is_digit p 45" "\<not> is_digit p 43"
  by (simp_all add: is_digit_def decimal_digit_def)

lemma strip_sign_cases:
  "strip_sign s = (neg, body) \<Longrightarrow> s = body \<or> s = 45 # body \<or> s = 43 # body"
  by (cases s) (auto simp: strip_sign_def split: if_splits)

lemma strip_sign_append:
  "t \<noteq> [] \<Longrightarrow> strip_sign t = (neg, body) \<Longrightarrow> strip_sign (t @ ws) = (neg, body @ ws)"
  by (cases t) (auto simp: strip_sign_def split: if_splits)

lemma filter_spaces: "list_all (is_space p) ws \<Longrightarrow> filter (is_digit p) ws = []"
  by (induction ws) (auto simp: space_not_digit)

lemma takeWhile_spaces:
  "list_all (is_space p) ws \<Longrightarrow> takeWhile (digit_or_underscore p) ws = []"
  by (cases ws) (auto simp: space_not_digit_or_underscore)

lemma last_dropWhile: "dropWhile P xs \<noteq> [] \<Longrightarrow> last (dropWhile P xs) = last xs"
  by (metis last_appendR takeWhile_dropWhile_id)

text \<open>Taking the white space off both ends.\<close>

lemma trim_splits:
  "\<exists>ws. dropWhile (is_space p) s = trim p s @ ws \<and> list_all (is_space p) ws"
proof -
  let ?s1 = "dropWhile (is_space p) s"
  let ?ws = "rev (takeWhile (is_space p) (rev ?s1))"
  have "rev ?s1 = takeWhile (is_space p) (rev ?s1) @ dropWhile (is_space p) (rev ?s1)"
    by simp
  then have "rev (rev ?s1) = trim p s @ ?ws"
    unfolding trim_def by (metis rev_append)
  moreover have "list_all (is_space p) ?ws"
    by (auto simp: list_all_iff dest: set_takeWhileD)
  ultimately show ?thesis by auto
qed

lemma trim_last: "trim p s \<noteq> [] \<Longrightarrow> \<not> is_space p (last (trim p s))"
  unfolding trim_def by (simp add: last_rev hd_dropWhile)

lemma trim_empty: "trim p s = [] \<Longrightarrow> dropWhile (is_space p) s = []"
proof -
  assume empty: "trim p s = []"
  obtain ws where ws: "dropWhile (is_space p) s = trim p s @ ws" "list_all (is_space p) ws"
    using trim_splits by blast
  show ?thesis
  proof (cases "dropWhile (is_space p) s")
    case Nil
    then show ?thesis .
  next
    case (Cons c r)
    then have "\<not> is_space p c" by (metis hd_dropWhile list.sel(1) list.distinct(1))
    moreover from Cons ws empty have "is_space p c" by (auto simp: list_all_iff)
    ultimately show ?thesis by simp
  qed
qed

lemma digit_count_trim:
  assumes sign: "strip_sign (trim p s) = (neg, body)"
  shows "digit_count p s = length (filter (is_digit p) body)"
proof -
  obtain ws where ws: "dropWhile (is_space p) s = trim p s @ ws" "list_all (is_space p) ws"
    using trim_splits by blast
  have "filter (is_digit p) s =
      filter (is_digit p) (takeWhile (is_space p) s) @
      filter (is_digit p) (dropWhile (is_space p) s)"
    by (metis filter_append takeWhile_dropWhile_id)
  moreover have "filter (is_digit p) (takeWhile (is_space p) s) = []"
    by (auto simp: filter_empty_conv space_not_digit dest: set_takeWhileD)
  moreover have "filter (is_digit p) (trim p s) = filter (is_digit p) body"
    using strip_sign_cases [OF sign] by (auto simp: sign_not_digit)
  ultimately show ?thesis
    using ws by (simp add: digit_count_def filter_spaces)
qed

text \<open>The scan of \<open>py_int\<close> over a body followed by white space.\<close>

lemma scan_body_all:
  assumes "list_all (is_space p) ws" "list_all (digit_or_underscore p) body"
  shows "takeWhile (digit_or_underscore p) (body @ ws) = body"
    and "dropWhile (digit_or_underscore p) (body @ ws) = ws"
proof -
  have none: "takeWhile (digit_or_underscore p) ws = []"
    using assms(1) by (rule takeWhile_spaces)
  have "takeWhile (digit_or_underscore p) (body @ ws) =
      body @ takeWhile (digit_or_underscore p) ws"
    using assms(2) by (simp add: list_all_iff)
  with none show "takeWhile (digit_or_underscore p) (body @ ws) = body" by simp
  have "dropWhile (digit_or_underscore p) (body @ ws) = dropWhile (digit_or_underscore p) ws"
    using assms(2) by (simp add: list_all_iff)
  also have "\<dots> = ws"
    using none by (metis append_Nil takeWhile_dropWhile_id)
  finally show "dropWhile (digit_or_underscore p) (body @ ws) = ws" .
qed

lemma scan_body:
  assumes ws: "list_all (is_space p) ws" and tail: "body = [] \<or> \<not> is_space p (last body)"
  shows "underscores_ok p (takeWhile (digit_or_underscore p) (body @ ws)) \<and>
      list_all (is_space p) (dropWhile (digit_or_underscore p) (body @ ws)) \<longleftrightarrow>
    underscores_ok p body \<and> list_all (digit_or_underscore p) body"
proof (cases "list_all (digit_or_underscore p) body")
  case True
  with ws show ?thesis by (simp add: scan_body_all)
next
  case False
  then obtain x where x: "x \<in> set body" "\<not> digit_or_underscore p x"
    by (auto simp: list_all_iff)
  then have rest: "dropWhile (digit_or_underscore p) (body @ ws) =
      dropWhile (digit_or_underscore p) body @ ws"
    by simp
  from x have nonempty: "dropWhile (digit_or_underscore p) body \<noteq> []" by auto
  then have "last (dropWhile (digit_or_underscore p) body) = last body"
    by (rule last_dropWhile)
  moreover from x tail have "\<not> is_space p (last body)" by auto
  moreover from nonempty have "last (dropWhile (digit_or_underscore p) body) \<in>
      set (dropWhile (digit_or_underscore p) body)"
    by (rule last_in_set)
  ultimately have "\<not> list_all (is_space p) (dropWhile (digit_or_underscore p) body)"
    by (auto simp: list_all_iff)
  with rest False show ?thesis by simp
qed

lemma py_int_raises_ValueError: "py_int p s = Inl e \<Longrightarrow> exc_cls e = ValueError"
  by (auto simp: py_int_def Let_def invalid_literal_def exceeds_limit_def
      split: prod.splits if_splits)

lemma py_int_characterised:
  "(int_accepts p s \<longrightarrow> py_int p s = Inr (int_value p s)) \<and>
   (\<not> int_accepts p s \<longrightarrow> isl (py_int p s))"
proof -
  obtain ws where ws: "dropWhile (is_space p) s = trim p s @ ws" "list_all (is_space p) ws"
    using trim_splits by blast
  obtain neg body where sign: "strip_sign (trim p s) = (neg, body)"
    by (cases "strip_sign (trim p s)")
  show ?thesis
  proof (cases "trim p s = []")
    case True
    then have start: "dropWhile (is_space p) s = []" by (rule trim_empty)
    have "py_int p s = Inl (invalid_literal p s)"
      unfolding py_int_def start by (simp add: strip_sign_def)
    with True show ?thesis
      by (simp add: int_accepts_def decimal_integer_literal_def strip_sign_def)
  next
    case False
    with sign have whole: "strip_sign (dropWhile (is_space p) s) = (neg, body @ ws)"
      by (simp add: ws strip_sign_append)
    have tail: "body = [] \<or> \<not> is_space p (last body)"
      using strip_sign_cases [OF sign] trim_last [OF False] by auto
    note scan = scan_body [OF ws(2) tail]
    show ?thesis
    proof (cases "underscores_ok p body \<and> list_all (digit_or_underscore p) body")
      case True
      then have body: "takeWhile (digit_or_underscore p) (body @ ws) = body"
        "dropWhile (digit_or_underscore p) (body @ ws) = ws"
        using ws(2) by (simp_all add: scan_body_all)
      from True ws(2) show ?thesis
        unfolding py_int_def whole
        by (simp add: body int_accepts_def decimal_integer_literal_def
            sign digit_count_trim [OF sign] int_value_def)
    next
      case no: False
      with scan have "\<not> (underscores_ok p (takeWhile (digit_or_underscore p) (body @ ws)) \<and>
          list_all (is_space p) (dropWhile (digit_or_underscore p) (body @ ws)))"
        by simp
      then have "isl (py_int p s)"
        unfolding py_int_def whole by (auto simp: Let_def)
      with no show ?thesis
        by (auto simp: int_accepts_def decimal_integer_literal_def sign)
    qed
  qed
qed

lemma py_int_accepted: "int_accepts p s \<Longrightarrow> py_int p s = Inr (int_value p s)"
  using py_int_characterised [of p s] by simp

lemma py_int_refused:
  "\<not> int_accepts p s \<Longrightarrow> \<exists>e. py_int p s = Inl e \<and> exc_cls e = ValueError"
  using py_int_characterised [of p s] py_int_raises_ValueError [of p s]
  by (cases "py_int p s") auto

text \<open>A literal has no white space at its ends.\<close>

lemma underscores_ok_ends:
  "underscores_ok p body \<Longrightarrow> is_digit p (hd body) \<and> is_digit p (last body) \<and> body \<noteq> []"
  by (induction p body rule: underscores_ok.induct) (auto split: if_splits)

lemma literal_trim:
  assumes "decimal_integer_literal p s"
  shows "trim p s = s"
proof -
  obtain neg body where sign: "strip_sign s = (neg, body)"
    by (cases "strip_sign s")
  with assms have body: "underscores_ok p body" by (simp add: decimal_integer_literal_def)
  note ends = underscores_ok_ends [OF body]
  from strip_sign_cases [OF sign] ends have "s \<noteq> []" "\<not> is_space p (hd s)"
    "\<not> is_space p (last s)"
    using space_not_digit [of p] sign_not_space [of p] by auto
  then have front: "dropWhile (is_space p) s = s"
    and rear: "dropWhile (is_space p) (rev s) = rev s"
    by (simp_all add: dropWhile_eq_self_iff hd_rev)
  show ?thesis
    unfolding trim_def front rear by simp
qed

lemma literal_accepted:
  "decimal_integer_literal p s \<Longrightarrow> \<not> over_limit p (digit_count p s) \<Longrightarrow> int_accepts p s"
  by (simp add: int_accepts_def literal_trim)

subsection \<open>Exit status and output\<close>

lemma sys_exit_clean: "\<not> unflushed w \<Longrightarrow> sys_exit n w = (Exit n, w)"
  by (simp add: sys_exit_def)




lemma main_size_refused:
  "3 \<le> length argv \<Longrightarrow> requested_size p argv = Inl e \<Longrightarrow> main p argv w = (Uncaught e, w)"
  by (simp add: main_def)

lemma main_calls_extract_icon:
  "3 \<le> length argv \<Longrightarrow> requested_size p argv = Inr sz \<Longrightarrow>
   main p argv w = report p (extract_icon p (argv ! 1) (argv ! 2) (Some sz) w)"
  by (simp add: main_def)

lemma requested_size_third:
  "requested_size p (prog # app_path # output_path # s # extra) = py_int p s"
  by (simp add: requested_size_def)




subsection \<open>Evaluating \<open>int\<close> on examples\<close>

text \<open>Below 128 neither the white space nor the digits depend on the Unicode tables.\<close>

lemma decimal_digit_ascii:
  "c < 128 \<Longrightarrow>
   decimal_digit p c = (if 48 \<le> c \<and> c \<le> 57 then Some (c - 48) else None)"
  by (simp add: decimal_digit_def)

lemma is_space_ascii: "c < 128 \<Longrightarrow> is_space p c = (c \<in> {9, 10, 11, 12, 13, 32})"
  by (simp add: is_space_def)

lemmas ascii_accept_defs =
  int_accepts_def int_value_def trim_def decimal_integer_literal_def digit_count_def
  strip_sign_def is_space_ascii is_digit_def digit_value_def decimal_digit_ascii
  digit_or_underscore_def over_limit_def ascii_def

lemma host_text:
  "white_space generic_icon_host = unicode_14_spaces"
  "decimal_zeros generic_icon_host = unicode_14_zeros"
  "int_max_str_digits generic_icon_host = 4300"
  by (simp_all add: generic_icon_host_def)

lemma fullwidth_digits:
  "decimal_digit generic_icon_host 65302 = Some 6"
  "decimal_digit generic_icon_host 65300 = Some 4"
  by (simp_all add: decimal_digit_def host_text unicode_14_spaces_def unicode_14_zeros_def)

lemma fullwidth_not_space:
  "\<not> is_space generic_icon_host 65302"
  "\<not> is_space generic_icon_host 65300"
  by (simp_all add: is_space_def host_text unicode_14_spaces_def)

lemma fullwidth_64:
  "int_accepts generic_icon_host [65302, 65300]"
  "int_value generic_icon_host [65302, 65300] = 64"
  by (simp_all add: int_accepts_def int_value_def trim_def decimal_integer_literal_def
      digit_count_def strip_sign_def is_digit_def digit_value_def digit_or_underscore_def
      over_limit_def fullwidth_digits fullwidth_not_space)

lemma ascii_refused:
  "\<not> int_accepts p (ascii ''64px'')"
  "\<not> int_accepts p (ascii ''6 4'')"
  "\<not> int_accepts p []"
  "\<not> int_accepts p (ascii ''5-'')"
  "\<not> int_accepts p (ascii ''1+1'')"
  "\<not> int_accepts p (ascii ''1__0'')"
  "\<not> int_accepts p (ascii ''6.4'')"
  by (simp_all add: ascii_accept_defs)

lemma ascii_accepted:
  "int_accepts p (ascii ''-64'')" "int_value p (ascii ''-64'') = - 64"
  "int_accepts p (ascii ''0'')" "int_value p (ascii ''0'') = 0"
  "int_accepts p (ascii '' 64'')" "int_value p (ascii '' 64'') = 64"
  "int_accepts p (ascii ''128'')" "int_value p (ascii ''128'') = 128"
  by (simp_all add: ascii_accept_defs)

lemma ascii_literals:
  "\<not> decimal_integer_literal p (ascii '' 64'')"
  "decimal_integer_literal p (ascii ''1_000'')"
  "\<not> over_limit p (digit_count p (ascii ''1_000''))"
  "int_value p (ascii ''1_000'') = 1000"
  by (simp_all add: ascii_accept_defs)

lemma too_many_digits:
  "int_max_str_digits p = 4300 \<Longrightarrow> \<not> int_accepts p (replicate 4301 49)"
  by (simp add: int_accepts_def digit_count_def over_limit_def is_digit_def
      decimal_digit_ascii)



section \<open>The claims about the command-line wrapper\<close>

text \<open>
  C7. A call that omits \<open>size\<close> is the call with 64, and the wrapper, given exactly two
  positional arguments, calls \<open>extract_icon\<close> with 64. On the example host, whose encoder
  honours the size set on the image, both leave a 64 by 64 file.
\<close>

theorem default_size_is_64:
  "extract_icon p app_path output_path None w =
     extract_icon p app_path output_path (Some 64) w \<and>
   main p [prog, app_path, output_path] w =
     report p (extract_icon p app_path output_path (Some 64) w) \<and>
   fs (snd (extract_icon generic_icon_host notes_app icon_png None world_with_app))
     icon_png = Some (RegularFile (example_png (64, 64))) \<and>
   fs (snd (main generic_icon_host [script, notes_app, icon_png] world_with_app))
     icon_png = Some (RegularFile (example_png (64, 64)))"
proof -
  have "extract_icon p app_path output_path None w =
      extract_icon p app_path output_path (Some 64) w"
    by (simp add: extract_icon_def)
  moreover have "main p [prog, app_path, output_path] w =
      report p (extract_icon p app_path output_path (Some 64) w)"
    by (simp add: main_def requested_size_def)
  moreover have "fs (snd (extract_icon generic_icon_host notes_app icon_png None
      world_with_app)) icon_png = Some (RegularFile (example_png (64, 64)))"
    by (simp add: run_defs example_defs)
  moreover have "fs (snd (main generic_icon_host [script, notes_app, icon_png]
      world_with_app)) icon_png = Some (RegularFile (example_png (64, 64)))"
    by (simp add: main_def requested_size_def report_def sys_exit_def run_defs example_defs
        Let_def)
  ultimately show ?thesis by blast
qed




text \<open>
  C10, as the source has it. The wrapper checks the third positional argument with
  \<open>int\<close> and nothing else. An argument \<open>int\<close> does not accept raises a \<open>ValueError\<close>
  that nothing catches, before \<open>extract_icon\<close> is called: the world is as it was, no
  file written and no usage line printed. An argument \<open>int\<close> accepts is passed to
  \<open>extract_icon\<close> as the number it stands for, whatever its sign. \<open>int\<close> accepts a
  string exactly when, with the white space at both ends removed, it is a decimal
  integer literal (an optional sign, then decimal digits of any script with single
  underscores allowed between digits) and its digits are no more than the interpreter's
  limit; so it accepts every decimal integer literal within that limit.
\<close>

theorem size_argument_unchecked:
  "(\<not> int_accepts p s \<longrightarrow>
      (\<exists>e. exc_cls e = ValueError \<and>
         main p (prog # app_path # output_path # s # extra) w = (Uncaught e, w))) \<and>
   (int_accepts p s \<longrightarrow>
      main p (prog # app_path # output_path # s # extra) w =
        report p (extract_icon p app_path output_path (Some (int_value p s)) w)) \<and>
   (decimal_integer_literal p s \<and> \<not> over_limit p (digit_count p s) \<longrightarrow> int_accepts p s)"
proof -
  let ?argv = "prog # app_path # output_path # s # extra"
  have refused: "\<exists>e. exc_cls e = ValueError \<and> main p ?argv w = (Uncaught e, w)"
    if "\<not> int_accepts p s"
  proof -
    from that obtain e where e: "py_int p s = Inl e" "exc_cls e = ValueError"
      using py_int_refused by blast
    then have "main p ?argv w = (Uncaught e, w)"
      using main_size_refused [of ?argv p e w] by (simp add: requested_size_third)
    with e show ?thesis by blast
  qed
  have passed: "main p ?argv w =
      report p (extract_icon p app_path output_path (Some (int_value p s)) w)"
    if "int_accepts p s"
    using that main_calls_extract_icon [of ?argv p "int_value p s" w]
    by (simp add: requested_size_third py_int_accepted)
  have literal: "int_accepts p s"
    if "decimal_integer_literal p s" "\<not> over_limit p (digit_count p s)"
    using that by (rule literal_accepted)
  from refused passed literal show ?thesis by blast
qed

text \<open>
  \<open>' 64'\<close> is not a decimal integer literal, yet \<open>int\<close> reads it as 64 and the
  wrapper calls \<open>extract_icon\<close>, which writes the file.
\<close>

theorem size_argument_unchecked_counterexample:
  "\<not> decimal_integer_literal generic_icon_host (ascii '' 64'') \<and>
   fst (main generic_icon_host [script, notes_app, icon_png, ascii '' 64''] world_with_app) =
     Exit 0 \<and>
   fs (snd (main generic_icon_host [script, notes_app, icon_png, ascii '' 64'']
     world_with_app)) icon_png = Some (RegularFile (example_png (64, 64)))"
proof -
  have "requested_size generic_icon_host [script, notes_app, icon_png, ascii '' 64''] =
      Inr 64"
    using py_int_accepted [of generic_icon_host "ascii '' 64''"]
    by (simp add: requested_size_third ascii_accepted)
  then have "main generic_icon_host [script, notes_app, icon_png, ascii '' 64'']
      world_with_app =
      report generic_icon_host
        (extract_icon generic_icon_host notes_app icon_png (Some 64) world_with_app)"
    using main_calls_extract_icon [of "[script, notes_app, icon_png, ascii '' 64'']"
        generic_icon_host 64 world_with_app]
    by simp
  moreover have "fst (report generic_icon_host
      (extract_icon generic_icon_host notes_app icon_png (Some 64) world_with_app)) = Exit 0"
    by (simp add: report_def sys_exit_def run_defs example_defs)
  moreover have "fs (snd (report generic_icon_host
      (extract_icon generic_icon_host notes_app icon_png (Some 64) world_with_app)))
      icon_png = Some (RegularFile (example_png (64, 64)))"
    by (simp add: report_def sys_exit_def run_defs example_defs)
  ultimately show ?thesis by (simp add: ascii_literals)
qed

theorem size_argument_unchecked_witness:
  "\<not> int_accepts generic_icon_host (ascii ''64px'') \<and>
   (\<exists>e. exc_cls e = ValueError \<and>
      main generic_icon_host [script, notes_app, icon_png, ascii ''64px''] world_with_app =
        (Uncaught e, world_with_app)) \<and>
   \<not> int_accepts generic_icon_host (ascii ''6 4'') \<and>
   (\<exists>e. exc_cls e = ValueError \<and>
      main generic_icon_host [script, notes_app, icon_png, ascii ''6 4''] world_with_app =
        (Uncaught e, world_with_app)) \<and>
   \<not> int_accepts generic_icon_host [] \<and>
   (\<exists>e. exc_cls e = ValueError \<and>
      main generic_icon_host [script, notes_app, icon_png, []] world_with_app =
        (Uncaught e, world_with_app)) \<and>
   \<not> int_accepts generic_icon_host (ascii ''5-'') \<and>
   (\<exists>e. exc_cls e = ValueError \<and>
      main generic_icon_host [script, notes_app, icon_png, ascii ''5-''] world_with_app =
        (Uncaught e, world_with_app)) \<and>
   \<not> int_accepts generic_icon_host (replicate 4301 49) \<and>
   (\<exists>e. exc_cls e = ValueError \<and>
      main generic_icon_host [script, notes_app, icon_png, replicate 4301 49]
        world_with_app = (Uncaught e, world_with_app)) \<and>
   int_accepts generic_icon_host (ascii ''-64'') \<and>
   main generic_icon_host [script, notes_app, icon_png, ascii ''-64''] world_with_app =
     report generic_icon_host
       (extract_icon generic_icon_host notes_app icon_png (Some (- 64)) world_with_app) \<and>
   int_accepts generic_icon_host (ascii ''0'') \<and>
   main generic_icon_host [script, notes_app, icon_png, ascii ''0''] world_with_app =
     report generic_icon_host
       (extract_icon generic_icon_host notes_app icon_png (Some 0) world_with_app) \<and>
   int_accepts generic_icon_host [65302, 65300] \<and>
   main generic_icon_host [script, notes_app, icon_png, [65302, 65300]] world_with_app =
     report generic_icon_host
       (extract_icon generic_icon_host notes_app icon_png (Some 64) world_with_app) \<and>
   decimal_integer_literal generic_icon_host (ascii ''1_000'') \<and>
   \<not> over_limit generic_icon_host (digit_count generic_icon_host (ascii ''1_000'')) \<and>
   int_accepts generic_icon_host (ascii ''1_000'') \<and>
   main generic_icon_host [script, notes_app, icon_png, ascii ''1_000''] world_with_app =
     report generic_icon_host
       (extract_icon generic_icon_host notes_app icon_png (Some 1000) world_with_app)"
proof -
  note refused = ascii_refused [where p = generic_icon_host]
  note accepted = ascii_accepted [where p = generic_icon_host]
  note literals = ascii_literals [where p = generic_icon_host]
  have long: "\<not> int_accepts generic_icon_host (replicate 4301 49)"
    by (rule too_many_digits) (rule host_text)
  have r1: "\<exists>e. exc_cls e = ValueError \<and>
      main generic_icon_host [script, notes_app, icon_png, ascii ''64px''] world_with_app =
        (Uncaught e, world_with_app)"
    using size_argument_unchecked [where p = generic_icon_host and s = "ascii ''64px''"
        and prog = script and app_path = notes_app and output_path = icon_png
        and extra = "[]" and w = world_with_app] refused
    by blast
  have r2: "\<exists>e. exc_cls e = ValueError \<and>
      main generic_icon_host [script, notes_app, icon_png, ascii ''6 4''] world_with_app =
        (Uncaught e, world_with_app)"
    using size_argument_unchecked [where p = generic_icon_host and s = "ascii ''6 4''"
        and prog = script and app_path = notes_app and output_path = icon_png
        and extra = "[]" and w = world_with_app] refused
    by blast
  have r3: "\<exists>e. exc_cls e = ValueError \<and>
      main generic_icon_host [script, notes_app, icon_png, []] world_with_app =
        (Uncaught e, world_with_app)"
    using size_argument_unchecked [where p = generic_icon_host and s = "[]"
        and prog = script and app_path = notes_app and output_path = icon_png
        and extra = "[]" and w = world_with_app] refused
    by blast
  have r4: "\<exists>e. exc_cls e = ValueError \<and>
      main generic_icon_host [script, notes_app, icon_png, ascii ''5-''] world_with_app =
        (Uncaught e, world_with_app)"
    using size_argument_unchecked [where p = generic_icon_host and s = "ascii ''5-''"
        and prog = script and app_path = notes_app and output_path = icon_png
        and extra = "[]" and w = world_with_app] refused
    by blast
  have r5: "\<exists>e. exc_cls e = ValueError \<and>
      main generic_icon_host [script, notes_app, icon_png, replicate 4301 49]
        world_with_app = (Uncaught e, world_with_app)"
    using size_argument_unchecked [where p = generic_icon_host and s = "replicate 4301 49"
        and prog = script and app_path = notes_app and output_path = icon_png
        and extra = "[]" and w = world_with_app] long
    by blast
  have a1: "main generic_icon_host [script, notes_app, icon_png, ascii ''-64'']
      world_with_app =
      report generic_icon_host
        (extract_icon generic_icon_host notes_app icon_png (Some (- 64)) world_with_app)"
    using size_argument_unchecked [where p = generic_icon_host and s = "ascii ''-64''"
        and prog = script and app_path = notes_app and output_path = icon_png
        and extra = "[]" and w = world_with_app] accepted
    by simp
  have a2: "main generic_icon_host [script, notes_app, icon_png, ascii ''0'']
      world_with_app =
      report generic_icon_host
        (extract_icon generic_icon_host notes_app icon_png (Some 0) world_with_app)"
    using size_argument_unchecked [where p = generic_icon_host and s = "ascii ''0''"
        and prog = script and app_path = notes_app and output_path = icon_png
        and extra = "[]" and w = world_with_app] accepted
    by simp
  have a3: "main generic_icon_host [script, notes_app, icon_png, [65302, 65300]]
      world_with_app =
      report generic_icon_host
        (extract_icon generic_icon_host notes_app icon_png (Some 64) world_with_app)"
    using size_argument_unchecked [where p = generic_icon_host and s = "[65302, 65300]"
        and prog = script and app_path = notes_app and output_path = icon_png
        and extra = "[]" and w = world_with_app] fullwidth_64
    by simp
  have a4: "int_accepts generic_icon_host (ascii ''1_000'')"
    using size_argument_unchecked [where p = generic_icon_host and s = "ascii ''1_000''"
        and prog = script and app_path = notes_app and output_path = icon_png
        and extra = "[]" and w = world_with_app] literals
    by blast
  have a5: "main generic_icon_host [script, notes_app, icon_png, ascii ''1_000'']
      world_with_app =
      report generic_icon_host
        (extract_icon generic_icon_host notes_app icon_png (Some 1000) world_with_app)"
    using size_argument_unchecked [where p = generic_icon_host and s = "ascii ''1_000''"
        and prog = script and app_path = notes_app and output_path = icon_png
        and extra = "[]" and w = world_with_app] a4 literals
    by simp
  from refused long accepted fullwidth_64 literals r1 r2 r3 r4 r5 a1 a2 a3 a4 a5
  show ?thesis by blast
qed

section \<open>Facts about the response models\<close>

lemma field_missing:
  "map_of kw name = None \<Longrightarrow> field kw name validate None = Inl [([name], Missing)]"
  by (simp add: field_def)

lemma field_omitted:
  "map_of kw name = None \<Longrightarrow> field kw name validate (Some d) = Inr d"
  by (simp add: field_def)

lemma field_present:
  "map_of kw name = Some v \<Longrightarrow> field kw name validate dflt = at_loc name (validate v)"
  by (simp add: field_def)

lemma isl_at_loc: "isl (at_loc name r) = isl r"
  by (cases r) (simp_all add: at_loc_def)

lemma errors_of_at_loc:
  "errors_of (at_loc name r) = map (\<lambda>(loc, t). (name # loc, t)) (errors_of r)"
  by (cases r) (simp_all add: at_loc_def errors_of_def)

lemma errors_of_Inl: "errors_of (Inl errs) = errs"
  by (simp add: errors_of_def)

lemma validate_bool_accepts: "as_bool c v \<noteq> None \<Longrightarrow> \<not> isl (validate_bool c v)"
  by (auto simp: validate_bool_def)

lemma field_bool_accepts:
  "map_of kw name = Some v \<Longrightarrow> as_bool c v \<noteq> None \<Longrightarrow>
   \<not> isl (field kw name (validate_bool c) None)"
  by (simp add: field_present isl_at_loc validate_bool_accepts)

lemma validate_items_accepts:
  "\<forall>v \<in> snd ` set kvs. as_bool c v \<noteq> None \<Longrightarrow> \<not> isl (validate_items c kvs)"
  by (induction kvs) (auto simp: Let_def isl_at_loc validate_bool_accepts)

lemma rollout_missing:
  assumes name: "name \<in> set rollout_fields" and missing: "map_of kw name = None"
  shows "isl (FeatureFlagsRolloutInfo_init c kw) \<and>
    ([name], Missing) \<in> set (errors_of (FeatureFlagsRolloutInfo_init c kw))"
proof -
  have f: "field kw name (validate_bool c) None = Inl [([name], Missing)]"
    using missing by (rule field_missing)
  from name consider "name = ''websocket_enabled''" | "name = ''evidence_validation_enabled''"
    | "name = ''billing_enabled''" | "name = ''hmac_enabled''"
    by (auto simp: rollout_fields_def)
  then show ?thesis
  proof cases
    case 1
    with f show ?thesis by (simp add: FeatureFlagsRolloutInfo_init_def Let_def errors_of_Inl)
  next
    case 2
    with f show ?thesis by (simp add: FeatureFlagsRolloutInfo_init_def Let_def errors_of_Inl)
  next
    case 3
    with f show ?thesis by (simp add: FeatureFlagsRolloutInfo_init_def Let_def errors_of_Inl)
  next
    case 4
    with f show ?thesis by (simp add: FeatureFlagsRolloutInfo_init_def Let_def errors_of_Inl)
  qed
qed

lemma rollout_accepts:
  assumes "\<forall>name \<in> set rollout_fields. \<exists>v. map_of kw name = Some v \<and> as_bool c v \<noteq> None"
  shows "\<not> isl (FeatureFlagsRolloutInfo_init c kw)"
proof -
  from assms have "\<not> isl (field kw ''websocket_enabled'' (validate_bool c) None)"
    "\<not> isl (field kw ''evidence_validation_enabled'' (validate_bool c) None)"
    "\<not> isl (field kw ''billing_enabled'' (validate_bool c) None)"
    "\<not> isl (field kw ''hmac_enabled'' (validate_bool c) None)"
    by (auto simp: rollout_fields_def field_bool_accepts)
  then show ?thesis by (simp add: FeatureFlagsRolloutInfo_init_def Let_def)
qed

lemma response_flags_missing:
  assumes "map_of kw ''flags'' = None"
  shows "isl (FeatureFlagsResponse_init c kw) \<and>
    ([''flags''], Missing) \<in> set (errors_of (FeatureFlagsResponse_init c kw))"
  using field_missing [OF assms, of "validate_dict_str_bool c"]
  by (simp add: FeatureFlagsResponse_init_def Let_def errors_of_Inl)

lemma response_rollout_missing:
  assumes "map_of kw ''rollout_info'' = None"
  shows "isl (FeatureFlagsResponse_init c kw) \<and>
    ([''rollout_info''], Missing) \<in> set (errors_of (FeatureFlagsResponse_init c kw))"
  using field_missing [OF assms, of "validate_rollout_info c"]
  by (simp add: FeatureFlagsResponse_init_def Let_def errors_of_Inl)

lemma response_nested_missing:
  assumes name: "name \<in> set rollout_fields"
    and given: "map_of kw ''rollout_info'' = Some (PyDict rkw)"
    and missing: "map_of rkw name = None"
  shows "isl (FeatureFlagsResponse_init c kw) \<and>
    ([''rollout_info'', name], Missing) \<in> set (errors_of (FeatureFlagsResponse_init c kw))"
proof -
  let ?r3 = "field kw ''rollout_info'' (validate_rollout_info c) None"
  have r3: "?r3 = at_loc ''rollout_info'' (FeatureFlagsRolloutInfo_init c rkw)"
    using given by (simp add: field_present validate_rollout_info_def)
  from rollout_missing [OF name missing, of c]
  have "isl ?r3" and "([''rollout_info'', name], Missing) \<in> set (errors_of ?r3)"
    by (auto simp: r3 isl_at_loc errors_of_at_loc intro!: rev_image_eqI)
  then show ?thesis
    by (simp add: FeatureFlagsResponse_init_def Let_def errors_of_Inl)
qed

lemma rollout_info_accepts:
  assumes "ri = PyRolloutInfo a b d e \<or>
      ri = PyDict rkw \<and>
      (\<forall>name \<in> set rollout_fields. \<exists>v. map_of rkw name = Some v \<and> as_bool c v \<noteq> None)"
  shows "\<not> isl (validate_rollout_info c ri)"
  using assms rollout_accepts [of rkw c]
  by (auto simp: validate_rollout_info_def)

lemma response_accepts:
  assumes anonymous: "map_of kw ''user_id'' = None"
    and given_flags: "map_of kw ''flags'' = Some (PyDict fl)"
    and bools: "\<forall>v \<in> snd ` set fl. as_bool c v \<noteq> None"
    and given_rollout: "map_of kw ''rollout_info'' = Some ri"
    and rollout: "ri = PyRolloutInfo a b d e \<or>
      ri = PyDict rkw \<and>
      (\<forall>name \<in> set rollout_fields. \<exists>v. map_of rkw name = Some v \<and> as_bool c v \<noteq> None)"
  shows "\<not> isl (FeatureFlagsResponse_init c kw)"
proof -
  have r1: "\<not> isl (field kw ''flags'' (validate_dict_str_bool c) None)"
    using given_flags validate_items_accepts [OF bools]
    by (simp add: field_present isl_at_loc validate_dict_str_bool_def)
  have r2: "\<not> isl (field kw ''user_id'' (validate_optional_str c) (Some None))"
    using anonymous by (simp add: field_omitted)
  have r3: "\<not> isl (field kw ''rollout_info'' (validate_rollout_info c) None)"
    using given_rollout rollout_info_accepts [OF rollout]
    by (simp add: field_present isl_at_loc)
  from r1 r2 r3 show ?thesis
    by (simp add: FeatureFlagsResponse_init_def Let_def)
qed

lemmas model_defs =
  FeatureFlagsResponse_init_def FeatureFlagsRolloutInfo_init_def field_def at_loc_def
  errors_of_def validate_bool_def validate_optional_str_def validate_dict_str_bool_def
  validate_rollout_info_def strict_def Let_def

lemmas example_kwargs =
  example_response_def example_anonymous_def example_flags_def example_rollout_def

section \<open>The claims about the response models\<close>

text \<open>
  C8. Construction fails, and the error names the field as missing, when one of the four
  fields of the rollout info is missing, when \<open>flags\<close> or \<open>rollout_info\<close> is missing
  on the response, and when the rollout info given to the response lacks one of its
  four fields. Construction succeeds without \<open>user_id\<close> when \<open>flags\<close> is present and
  a dictionary of booleans and \<open>rollout_info\<close> is present, as an instance or as a
  dictionary with its four booleans.
\<close>

theorem required_fields_enforced:
  "(name \<in> set rollout_fields \<and> map_of rkw name = None \<longrightarrow>
      isl (FeatureFlagsRolloutInfo_init c rkw) \<and>
      ([name], Missing) \<in> set (errors_of (FeatureFlagsRolloutInfo_init c rkw))) \<and>
   (map_of kw ''flags'' = None \<longrightarrow>
      isl (FeatureFlagsResponse_init c kw) \<and>
      ([''flags''], Missing) \<in> set (errors_of (FeatureFlagsResponse_init c kw))) \<and>
   (map_of kw ''rollout_info'' = None \<longrightarrow>
      isl (FeatureFlagsResponse_init c kw) \<and>
      ([''rollout_info''], Missing) \<in> set (errors_of (FeatureFlagsResponse_init c kw))) \<and>
   (name \<in> set rollout_fields \<and> map_of kw ''rollout_info'' = Some (PyDict rkw) \<and>
    map_of rkw name = None \<longrightarrow>
      isl (FeatureFlagsResponse_init c kw) \<and>
      ([''rollout_info'', name], Missing) \<in>
        set (errors_of (FeatureFlagsResponse_init c kw))) \<and>
   (map_of kw ''user_id'' = None \<and>
    map_of kw ''flags'' = Some (PyDict fl) \<and> (\<forall>v \<in> snd ` set fl. as_bool c v \<noteq> None) \<and>
    map_of kw ''rollout_info'' = Some ri \<and>
    (ri = PyRolloutInfo a b d e \<or>
     ri = PyDict rkw \<and>
     (\<forall>name \<in> set rollout_fields.
        \<exists>v. map_of rkw name = Some v \<and> as_bool c v \<noteq> None)) \<longrightarrow>
      \<not> isl (FeatureFlagsResponse_init c kw))"
proof -
  note missing = rollout_missing [of name rkw c] response_flags_missing [of kw c]
    response_rollout_missing [of kw c] response_nested_missing [of name kw rkw c]
  have accepted: "\<not> isl (FeatureFlagsResponse_init c kw)"
    if "map_of kw ''user_id'' = None" "map_of kw ''flags'' = Some (PyDict fl)"
      "\<forall>v \<in> snd ` set fl. as_bool c v \<noteq> None" "map_of kw ''rollout_info'' = Some ri"
      "ri = PyRolloutInfo a b d e \<or>
       ri = PyDict rkw \<and>
       (\<forall>name \<in> set rollout_fields.
          \<exists>v. map_of rkw name = Some v \<and> as_bool c v \<noteq> None)"
    using that by (rule response_accepts)
  from missing accepted show ?thesis by blast
qed

theorem required_fields_enforced_witness:
  "''hmac_enabled'' \<in> set rollout_fields \<and>
   map_of (butlast example_rollout) ''hmac_enabled'' = None \<and>
   isl (FeatureFlagsRolloutInfo_init strict (butlast example_rollout)) \<and>
   map_of [(''rollout_info'', PyDict example_rollout)] ''flags'' = None \<and>
   isl (FeatureFlagsResponse_init strict [(''rollout_info'', PyDict example_rollout)]) \<and>
   map_of [(''flags'', PyDict example_flags)] ''rollout_info'' = None \<and>
   isl (FeatureFlagsResponse_init strict [(''flags'', PyDict example_flags)]) \<and>
   isl (FeatureFlagsResponse_init strict
     [(''flags'', PyDict example_flags), (''rollout_info'', PyDict (butlast example_rollout))]) \<and>
   map_of example_anonymous ''user_id'' = None \<and>
   map_of example_anonymous ''flags'' = Some (PyDict example_flags) \<and>
   map_of example_anonymous ''rollout_info'' = Some (PyDict example_rollout) \<and>
   \<not> isl (FeatureFlagsResponse_init strict example_anonymous) \<and>
   \<not> isl (FeatureFlagsResponse_init strict
     [(''flags'', PyDict example_flags),
      (''rollout_info'', PyRolloutInfo False True False True)])"
proof -
  let ?short = "butlast example_rollout"
  have name: "''hmac_enabled'' \<in> set rollout_fields"
    by (simp add: rollout_fields_def)
  have missing: "map_of ?short ''hmac_enabled'' = None"
    by (simp add: example_rollout_def)
  have no_flags: "map_of [(''rollout_info'', PyDict example_rollout)] ''flags'' = None"
    by simp
  have no_rollout: "map_of [(''flags'', PyDict example_flags)] ''rollout_info'' = None"
    by simp
  have nested: "map_of [(''flags'', PyDict example_flags), (''rollout_info'', PyDict ?short)]
      ''rollout_info'' = Some (PyDict ?short)"
    by simp
  have anonymous: "map_of example_anonymous ''user_id'' = None"
    "map_of example_anonymous ''flags'' = Some (PyDict example_flags)"
    "map_of example_anonymous ''rollout_info'' = Some (PyDict example_rollout)"
    by (simp_all add: example_anonymous_def)
  have bools: "\<forall>v \<in> snd ` set example_flags. as_bool strict v \<noteq> None"
    by (auto simp: example_flags_def strict_def)
  have rollout: "\<forall>name \<in> set rollout_fields.
      \<exists>v. map_of example_rollout name = Some v \<and> as_bool strict v \<noteq> None"
    by (auto simp: rollout_fields_def example_rollout_def strict_def)
  from required_fields_enforced [where name = "''hmac_enabled''" and rkw = ?short
      and c = strict and kw = "[(''rollout_info'', PyDict example_rollout)]"
      and fl = "[]"] name missing no_flags
  have a: "isl (FeatureFlagsRolloutInfo_init strict ?short) \<and>
      isl (FeatureFlagsResponse_init strict [(''rollout_info'', PyDict example_rollout)])"
    by blast
  from required_fields_enforced [where name = "''hmac_enabled''" and rkw = ?short
      and c = strict and kw = "[(''flags'', PyDict example_flags)]" and fl = "[]"] no_rollout
  have b: "isl (FeatureFlagsResponse_init strict [(''flags'', PyDict example_flags)])"
    by blast
  from required_fields_enforced [where name = "''hmac_enabled''" and rkw = ?short
      and c = strict
      and kw = "[(''flags'', PyDict example_flags), (''rollout_info'', PyDict ?short)]"
      and fl = "[]"] name missing nested
  have d: "isl (FeatureFlagsResponse_init strict
      [(''flags'', PyDict example_flags), (''rollout_info'', PyDict ?short)])"
    by blast
  from required_fields_enforced [where name = "''hmac_enabled''" and rkw = example_rollout
      and c = strict and kw = example_anonymous and fl = example_flags
      and ri = "PyDict example_rollout"]
    anonymous bools rollout
  have e: "\<not> isl (FeatureFlagsResponse_init strict example_anonymous)"
    by blast
  let ?built = "[(''flags'', PyDict example_flags),
      (''rollout_info'', PyRolloutInfo False True False True)]"
  have instance_given: "map_of ?built ''user_id'' = None"
    "map_of ?built ''flags'' = Some (PyDict example_flags)"
    "map_of ?built ''rollout_info'' = Some (PyRolloutInfo False True False True)"
    by simp_all
  from required_fields_enforced [where name = "''hmac_enabled''" and rkw = example_rollout
      and c = strict and kw = ?built and fl = example_flags
      and ri = "PyRolloutInfo False True False True" and a = False and b = True
      and d = False and e = True]
    instance_given bools
  have f: "\<not> isl (FeatureFlagsResponse_init strict ?built)"
    by blast
  from name missing no_flags no_rollout anonymous a b d e f show ?thesis by blast
qed

text \<open>
  C9. In every response that was constructed from arguments without \<open>user_id\<close>, the
  field \<open>user_id\<close> is \<open>None\<close>.
\<close>

theorem omitted_user_id_is_None:
  "map_of kw ''user_id'' = None \<Longrightarrow> FeatureFlagsResponse_init c kw = Inr r \<Longrightarrow>
   user_id r = None"
  by (auto simp: FeatureFlagsResponse_init_def Let_def field_omitted split: if_splits)

theorem omitted_user_id_is_None_witness:
  "map_of example_anonymous ''user_id'' = None \<and>
   FeatureFlagsResponse_init strict example_anonymous =
     Inr \<lparr>flags =
            [(''websocket_execution'', False), (''evidence_validation'', True),
             (''billing_enforcement'', False), (''hmac_security'', True)],
          user_id = None,
          rollout_info =
            \<lparr>websocket_enabled = False, evidence_validation_enabled = True,
             billing_enabled = False, hmac_enabled = True\<rparr>\<rparr> \<and>
   user_id \<lparr>flags =
            [(''websocket_execution'', False), (''evidence_validation'', True),
             (''billing_enforcement'', False), (''hmac_security'', True)],
          user_id = None,
          rollout_info =
            \<lparr>websocket_enabled = False, evidence_validation_enabled = True,
             billing_enabled = False, hmac_enabled = True\<rparr>\<rparr> = None"
proof -
  let ?r = "\<lparr>flags =
            [(''websocket_execution'', False), (''evidence_validation'', True),
             (''billing_enforcement'', False), (''hmac_security'', True)],
          user_id = None,
          rollout_info =
            \<lparr>websocket_enabled = False, evidence_validation_enabled = True,
             billing_enabled = False, hmac_enabled = True\<rparr>\<rparr>"
  have omitted: "map_of example_anonymous ''user_id'' = None"
    by (simp add: example_anonymous_def)
  have built: "FeatureFlagsResponse_init strict example_anonymous = Inr ?r"
    by (simp add: model_defs example_kwargs)
  from omitted_user_id_is_None [OF omitted built] omitted built show ?thesis by simp
qed

end
